theory Spec2Isabelle
  imports Main "HOL-Library.Char_ord" "HOL-Library.List_Lexorder" "HOL-Library.Sublist"
begin

section \<open>Python values, exceptions and the notebook's effects\<close>

text \<open>
  The notebook \<^verbatim>\<open>DE/C2_W1_Lab_3_S3.ipynb\<close> is a set of small Python functions, each of
  which builds a boto3 client and calls methods of it. The values that travel between the
  notebook and the client are Python strings, booleans, integers, lists and dicts. A dict
  is an association list with string keys (looked up with \<open>map_of\<close>, keys distinct).
\<close>

datatype pyval =
    PyNone
  | PyBool bool
  | PyInt int
  | PyStr string
  | PyList "pyval list"
  | PyDict "(string \<times> pyval) list"

text \<open>
  A raised exception: its class name and the text \<^verbatim>\<open>str(e)\<close> gives. Every exception
  of the model is an instance of \<^verbatim>\<open>Exception\<close>, which is what \<^verbatim>\<open>except Exception\<close>
  catches (\<^verbatim>\<open>KeyboardInterrupt\<close> and \<^verbatim>\<open>SystemExit\<close> are not modelled).
\<close>

datatype exn = PyExc (exc_type: string) (exc_str: string)

text \<open>
  A call of a client method, \<^verbatim>\<open>s3_client.m(a1, ..., k1=v1, ...)\<close>: the method name, the
  positional arguments and the keyword arguments, as the notebook writes them.
\<close>

datatype request =
  Request (r_method: string) (r_args: "pyval list") (r_kwargs: "(string \<times> pyval) list")

text \<open>
  The state a notebook function runs in: the world outside the notebook (the storage
  service and the local files, of a type \<open>'w\<close> the functions never inspect), what has been
  printed (one entry per \<^verbatim>\<open>print\<close> call: its arguments), and the requests sent so far.
\<close>

record 'w env =
  world :: 'w
  stdout :: "pyval list list"
  calls :: "request list"

text \<open>
  A client answers a request with a response or raises, and may change the world in
  both cases. \<^verbatim>\<open>boto3.client(service, region_name=...)\<close> builds a client or raises.
\<close>

type_synonym 'w client = "request \<Rightarrow> 'w \<Rightarrow> (exn + pyval) \<times> 'w"

type_synonym 'w boto3 = "string \<Rightarrow> string option \<Rightarrow> exn + 'w client"

type_synonym ('a, 'w) prog = "'w env \<Rightarrow> (exn + 'a) \<times> 'w env"

definition ret :: "'a \<Rightarrow> ('a, 'w) prog" where
  "ret x s = (Inr x, s)"

definition lift :: "exn + 'a \<Rightarrow> ('a, 'w) prog" where
  "lift r s = (r, s)"

text \<open>Sequencing: an exception raised by the first statement skips the rest.\<close>

definition bind :: "('a, 'w) prog \<Rightarrow> ('a \<Rightarrow> ('b, 'w) prog) \<Rightarrow> ('b, 'w) prog" where
  "bind m f s = (case m s of (Inl e, s') \<Rightarrow> (Inl e, s') | (Inr x, s') \<Rightarrow> f x s')"

text \<open>\<^verbatim>\<open>try: m  except Exception as e: h(e)\<close>\<close>

definition try_except :: "('a, 'w) prog \<Rightarrow> (exn \<Rightarrow> ('a, 'w) prog) \<Rightarrow> ('a, 'w) prog" where
  "try_except m h s = (case m s of (Inl e, s') \<Rightarrow> h e s' | (Inr x, s') \<Rightarrow> (Inr x, s'))"

definition py_print :: "pyval list \<Rightarrow> (pyval, 'w) prog" where
  "py_print xs s = (Inr PyNone, s\<lparr>stdout := stdout s @ [xs]\<rparr>)"

text \<open>Sending a request: the client acts on the world, and the request is recorded.\<close>

definition invoke :: "'w client \<Rightarrow> request \<Rightarrow> (pyval, 'w) prog" where
  "invoke c r s =
     (case c r (world s) of (res, w') \<Rightarrow> (res, s\<lparr>world := w', calls := calls s @ [r]\<rparr>))"

text \<open>\<^verbatim>\<open>for x in xs: body(x)\<close>, over a list already obtained from the iterable.\<close>

fun for_each :: "pyval list \<Rightarrow> (pyval \<Rightarrow> (pyval, 'w) prog) \<Rightarrow> (pyval, 'w) prog" where
  "for_each [] body = ret PyNone"
| "for_each (x # xs) body = bind (body x) (\<lambda>_. for_each xs body)"

subsection \<open>The operations of Python the notebook applies to responses\<close>

definition q :: string where
  "q = [CHR 0x27]"

text \<open>\<^verbatim>\<open>v[k]\<close> for a string \<open>k\<close>.\<close>

fun py_getitem :: "pyval \<Rightarrow> string \<Rightarrow> exn + pyval" where
  "py_getitem (PyDict kvs) k =
     (case map_of kvs k of
        None \<Rightarrow> Inl (PyExc ''KeyError'' (q @ k @ q))
      | Some v \<Rightarrow> Inr v)"
| "py_getitem (PyStr s) k = Inl (PyExc ''TypeError'' ''string indices must be integers'')"
| "py_getitem (PyList xs) k =
     Inl (PyExc ''TypeError'' ''list indices must be integers or slices, not str'')"
| "py_getitem v k = Inl (PyExc ''TypeError'' ''object is not subscriptable'')"

text \<open>\<^verbatim>\<open>v.get(k, d)\<close>: only a dict has the method.\<close>

fun py_get :: "pyval \<Rightarrow> string \<Rightarrow> pyval \<Rightarrow> exn + pyval" where
  "py_get (PyDict kvs) k d = (case map_of kvs k of None \<Rightarrow> Inr d | Some v \<Rightarrow> Inr v)"
| "py_get v k d = Inl (PyExc ''AttributeError'' ''object has no attribute get'')"

text \<open>\<^verbatim>\<open>k in v\<close> for a string \<open>k\<close>: a key of a dict, an element of a list, a substring.\<close>

fun py_contains :: "string \<Rightarrow> pyval \<Rightarrow> exn + bool" where
  "py_contains k (PyDict kvs) = Inr (k \<in> set (map fst kvs))"
| "py_contains k (PyList xs) = Inr (PyStr k \<in> set xs)"
| "py_contains k (PyStr s) = Inr (sublist k s)"
| "py_contains k v = Inl (PyExc ''TypeError'' ''argument is not iterable'')"

text \<open>The elements \<^verbatim>\<open>for x in v\<close> runs through.\<close>

fun py_iter :: "pyval \<Rightarrow> exn + pyval list" where
  "py_iter (PyList xs) = Inr xs"
| "py_iter (PyDict kvs) = Inr (map (\<lambda>kv. PyStr (fst kv)) kvs)"
| "py_iter (PyStr s) = Inr (map (\<lambda>c. PyStr [c]) s)"
| "py_iter v = Inl (PyExc ''TypeError'' ''object is not iterable'')"

definition for_in :: "pyval \<Rightarrow> (pyval \<Rightarrow> (pyval, 'w) prog) \<Rightarrow> (pyval, 'w) prog" where
  "for_in v body = bind (lift (py_iter v)) (\<lambda>xs. for_each xs body)"

section \<open>The notebook's functions\<close>

text \<open>
  Each function takes the \<^verbatim>\<open>boto3\<close> module as its first argument \<open>B\<close>; the source reads
  it from the imports. \<^verbatim>\<open>json.dumps\<close> is an argument \<open>dumps\<close> of the one function using it.
\<close>

definition BUCKET_NAME :: string where
  "BUCKET_NAME = ''de-c2w1lab3-730073446073''"

definition AWS_DEFAULT_REGION :: string where
  "AWS_DEFAULT_REGION = ''us-east-1''"

definition create_s3_bucket :: "'w boto3 \<Rightarrow> string \<Rightarrow> string \<Rightarrow> (pyval, 'w) prog" where
  "create_s3_bucket B bucket_name region =
     bind (lift (B ''s3'' (Some region))) (\<lambda>s3_client.
       try_except
         (bind (invoke s3_client (Request ''create_bucket'' [] [(''Bucket'', PyStr bucket_name)]))
            (\<lambda>_. py_print [PyStr (''S3 bucket '' @ q @ bucket_name @ q
                    @ '' created successfully in region '' @ q @ region @ q @ ''.'')]))
         (\<lambda>e. py_print [PyStr (''An error occurred: '' @ exc_str e)]))"

definition upload_file_to_s3 :: "'w boto3 \<Rightarrow> string \<Rightarrow> string \<Rightarrow> string \<Rightarrow> (pyval, 'w) prog" where
  "upload_file_to_s3 B local_file_path bucket_name object_key =
     bind (lift (B ''s3'' None)) (\<lambda>s3_client.
       try_except
         (bind (invoke s3_client
                  (Request ''upload_file''
                     [PyStr local_file_path, PyStr bucket_name, PyStr object_key] []))
            (\<lambda>_. py_print [PyStr (''File '' @ local_file_path @ '' uploaded to s3://''
                    @ bucket_name @ ''/'' @ object_key @ '' successfully.'')]))
         (\<lambda>e. py_print [PyStr (''Error uploading file to S3: '' @ exc_str e)]))"

definition download_object_from_s3 ::
    "'w boto3 \<Rightarrow> string \<Rightarrow> string \<Rightarrow> string \<Rightarrow> (pyval, 'w) prog" where
  "download_object_from_s3 B bucket_name object_key local_file_path =
     bind (lift (B ''s3'' None)) (\<lambda>s3_client.
       try_except
         (bind (invoke s3_client
                  (Request ''download_file''
                     [PyStr bucket_name, PyStr object_key, PyStr local_file_path] []))
            (\<lambda>_. ret PyNone))
         (\<lambda>e. py_print [PyStr (''Error downloading or printing JSON file: '' @ exc_str e)]))"

definition s3_public_access_setup :: "'w boto3 \<Rightarrow> string \<Rightarrow> pyval \<Rightarrow> (pyval, 'w) prog" where
  "s3_public_access_setup B bucket_name public_access_block_configuration =
     bind (lift (B ''s3'' None)) (\<lambda>s3_client.
       bind (invoke s3_client
               (Request ''put_public_access_block'' []
                  [(''Bucket'', PyStr bucket_name),
                   (''PublicAccessBlockConfiguration'', public_access_block_configuration)]))
         (\<lambda>_. ret PyNone))"

definition s3_put_bucket_policy ::
    "'w boto3 \<Rightarrow> (pyval \<Rightarrow> exn + string) \<Rightarrow> string \<Rightarrow> pyval \<Rightarrow> (pyval, 'w) prog" where
  "s3_put_bucket_policy B dumps bucket_name policy =
     bind (lift (B ''s3'' None)) (\<lambda>s3_client.
       bind (lift (dumps policy)) (\<lambda>policy_json.
         bind (invoke s3_client
                 (Request ''put_bucket_policy'' []
                    [(''Bucket'', PyStr bucket_name), (''Policy'', PyStr policy_json)]))
           (\<lambda>response. ret response)))"

definition configure_bucket_versioning :: "'w boto3 \<Rightarrow> string \<Rightarrow> pyval \<Rightarrow> (pyval, 'w) prog" where
  "configure_bucket_versioning B bucket_name versioning_config =
     bind (lift (B ''s3'' None)) (\<lambda>s3_client.
       bind (invoke s3_client
               (Request ''put_bucket_versioning'' []
                  [(''Bucket'', PyStr bucket_name),
                   (''VersioningConfiguration'', versioning_config)]))
         (\<lambda>response. ret response))"

text \<open>The bodies of the two printing loops.\<close>

definition print_key :: "pyval \<Rightarrow> (pyval, 'w) prog" where
  "print_key obj = bind (lift (py_getitem obj ''Key'')) (\<lambda>k. py_print [k])"

definition print_version :: "pyval \<Rightarrow> (pyval, 'w) prog" where
  "print_version version =
     bind (lift (py_getitem version ''Key'')) (\<lambda>k.
     bind (py_print [PyStr ''Object Key:'', k]) (\<lambda>_.
     bind (lift (py_getitem version ''VersionId'')) (\<lambda>v.
     bind (py_print [PyStr ''Object Version Id:'', v]) (\<lambda>_.
     bind (lift (py_getitem version ''IsLatest'')) (\<lambda>l.
     bind (py_print [PyStr ''Is Latest:'', l]) (\<lambda>_.
     bind (lift (py_getitem version ''LastModified'')) (\<lambda>m.
     bind (py_print [PyStr ''Last Modified:'', m]) (\<lambda>_.
     py_print []))))))))"

definition list_objects_in_folder :: "'w boto3 \<Rightarrow> string \<Rightarrow> string \<Rightarrow> (pyval, 'w) prog" where
  "list_objects_in_folder B bucket_name prefix_key =
     bind (lift (B ''s3'' None)) (\<lambda>s3_client.
       bind (invoke s3_client
               (Request ''list_objects_v2'' []
                  [(''Bucket'', PyStr bucket_name), (''Prefix'', PyStr prefix_key)]))
         (\<lambda>response.
            bind (lift (py_contains ''Contents'' response)) (\<lambda>found.
              if found then
                bind (py_print [PyStr (''Objects with a key that starts with ''
                                  @ q @ prefix_key @ q @ '':'')]) (\<lambda>_.
                  bind (lift (py_getitem response ''Contents'')) (\<lambda>contents.
                    for_in contents print_key))
              else
                py_print [PyStr (''No objects found in folder '' @ q @ prefix_key @ q @ ''.'')])))"

definition list_object_versions :: "'w boto3 \<Rightarrow> string \<Rightarrow> string \<Rightarrow> (pyval, 'w) prog" where
  "list_object_versions B bucket_name prefix_key =
     bind (lift (B ''s3'' None)) (\<lambda>s3_client.
       bind (invoke s3_client
               (Request ''list_object_versions'' []
                  [(''Bucket'', PyStr bucket_name), (''Prefix'', PyStr prefix_key)]))
         (\<lambda>response.
            bind (lift (py_get response ''Versions'' (PyList []))) (\<lambda>versions.
              for_in versions print_version)))"

text \<open>The body shared by the two loops of \<^verbatim>\<open>s3_delete_bucket\<close>.\<close>

definition delete_version :: "'w client \<Rightarrow> string \<Rightarrow> pyval \<Rightarrow> (pyval, 'w) prog" where
  "delete_version s3_client bucket_name version =
     bind (lift (py_getitem version ''Key'')) (\<lambda>key.
       bind (lift (py_getitem version ''VersionId'')) (\<lambda>version_id.
         invoke s3_client
           (Request ''delete_object'' []
              [(''Bucket'', PyStr bucket_name), (''Key'', key), (''VersionId'', version_id)])))"

definition s3_delete_bucket :: "'w boto3 \<Rightarrow> string \<Rightarrow> bool \<Rightarrow> (pyval, 'w) prog" where
  "s3_delete_bucket B bucket_name delete_objects =
     bind (lift (B ''s3'' None)) (\<lambda>s3_client.
       bind (if delete_objects then
               bind (invoke s3_client
                       (Request ''list_object_versions'' [] [(''Bucket'', PyStr bucket_name)]))
                 (\<lambda>response.
                    bind (lift (py_get response ''Versions'' (PyList []))) (\<lambda>versions.
                      bind (for_in versions (delete_version s3_client bucket_name)) (\<lambda>_.
                        bind (lift (py_get response ''DeleteMarkers'' (PyList []))) (\<lambda>markers.
                          for_in markers (delete_version s3_client bucket_name)))))
             else ret PyNone)
         (\<lambda>_. bind (invoke s3_client (Request ''delete_bucket'' [] [(''Bucket'', PyStr bucket_name)]))
                 (\<lambda>response. ret response)))"

text \<open>The cell that uploads the JSON file (exercise 2).\<close>

definition local_file_path_json :: string where
  "local_file_path_json = ''data/json/delivery-stream-one-record.json''"

definition object_key_json :: string where
  "object_key_json = ''json/json/delivery-stream-one-record.json''"

definition upload_json_cell :: "'w boto3 \<Rightarrow> (pyval, 'w) prog" where
  "upload_json_cell B = upload_file_to_s3 B local_file_path_json BUCKET_NAME object_key_json"

section \<open>The storage service\<close>

text \<open>
  Modelled from the spec: the remote object-storage service and the client bound to it
  (\<^verbatim>\<open>boto3\<close> and Amazon S3, which the notebook calls and the repository does not
  contain). The data model is the spec's: a bucket holds retained versions and delete
  markers, each identified by (key, version id); it has a versioning status, a
  public-access block and a policy. The local file system is a map from paths to
  contents, with a set of paths that cannot be written. The spec leaves the length of a
  listing open; the service answers with one page of at most \<open>page_size\<close> entries (1000
  in Amazon S3) and says in \<^verbatim>\<open>IsTruncated\<close> whether more exist.
\<close>

text \<open>
  Modelled from the spec: the versioning status of a bucket, \<open>Unversioned\<close> at first and
  then \<open>Enabled\<close> or \<open>Suspended\<close>.
\<close>

datatype versioning_status = Unversioned | Enabled | Suspended

text \<open>
  Modelled from the spec: an object version, that is a payload snapshot with its key, its
  version id and its last-modified time; with \<open>e_marker\<close> set it is a delete marker.
\<close>

record entry =
  e_key :: string
  e_version_id :: string
  e_marker :: bool
  e_payload :: string
  e_modified :: nat

text \<open>
  Modelled from the spec: a bucket, with its versioning status, its versions and delete
  markers (kept newest first), its public-access block and its policy.
\<close>

record bucket =
  versioning :: versioning_status
  entries :: "entry list"
  access_block :: "pyval option"
  policy :: "string option"

text \<open>
  Modelled from the spec: the world outside the notebook, that is the buckets by name, the
  local files by path, the paths that cannot be written, a clock that stamps uploads and
  the page size of listings.
\<close>

record s3_world =
  buckets :: "string \<Rightarrow> bucket option"
  files :: "string \<Rightarrow> string option"
  unwritable :: "string set"
  clock :: nat
  page_size :: nat

text \<open>
  Modelled from the spec: the version identifier issued at tick \<open>n\<close> of the clock.
  Identifiers of different ticks differ, and none of them is \<^verbatim>\<open>null\<close>.
\<close>

definition version_id_of :: "nat \<Rightarrow> string" where
  "version_id_of n = CHR ''v'' # replicate n (CHR ''1'')"

text \<open>
  Modelled from the spec: the (key, version id) pair that names a version or a delete
  marker within its bucket.
\<close>

definition entry_id :: "entry \<Rightarrow> string \<times> string" where
  "entry_id e = (e_key e, e_version_id e)"

text \<open>
  Modelled from the spec: storing a payload under a key. With versioning enabled the
  upload becomes a new version with a fresh identifier; otherwise it replaces the
  version whose identifier is \<^verbatim>\<open>null\<close>.
\<close>

definition put_entry :: "bucket \<Rightarrow> string \<Rightarrow> string \<Rightarrow> nat \<Rightarrow> bucket" where
  "put_entry bk k payload t =
     (if versioning bk = Enabled then
        bk\<lparr>entries :=
             \<lparr>e_key = k, e_version_id = version_id_of t, e_marker = False,
              e_payload = payload, e_modified = t\<rparr> # entries bk\<rparr>
      else
        bk\<lparr>entries :=
             \<lparr>e_key = k, e_version_id = ''null'', e_marker = False,
              e_payload = payload, e_modified = t\<rparr>
             # filter (\<lambda>e. entry_id e \<noteq> (k, ''null'')) (entries bk)\<rparr>)"

text \<open>
  Modelled from the spec: the latest flag. An entry is the latest of its key when no
  newer entry has the same key.
\<close>

fun mark_latest :: "string list \<Rightarrow> entry list \<Rightarrow> (entry \<times> bool) list" where
  "mark_latest seen [] = []"
| "mark_latest seen (e # es) = (e, e_key e \<notin> set seen) # mark_latest (e_key e # seen) es"

text \<open>
  Modelled from the spec: the entries of a bucket, each with its latest flag.
\<close>

definition rows :: "bucket \<Rightarrow> (entry \<times> bool) list" where
  "rows bk = mark_latest [] (entries bk)"

text \<open>
  Modelled from the spec: the current entry of a key, which is its newest one.
\<close>

definition latest :: "bucket \<Rightarrow> string \<Rightarrow> entry option" where
  "latest bk k = find (\<lambda>e. e_key e = k) (entries bk)"

text \<open>
  Modelled from the spec: the acknowledgment the service returns.
\<close>

definition ok_response :: pyval where
  "ok_response = PyDict [(''ResponseMetadata'', PyDict [(''HTTPStatusCode'', PyInt 200)])]"

text \<open>
  Modelled from the spec: a failure of a remote call, carrying the service's error code.
\<close>

definition client_error :: "string \<Rightarrow> exn" where
  "client_error code = PyExc ''ClientError'' code"

text \<open>
  Modelled from the spec: a keyword argument of a request that is a string.
\<close>

definition kw_str :: "request \<Rightarrow> string \<Rightarrow> string option" where
  "kw_str r k = (case map_of (r_kwargs r) k of Some (PyStr s) \<Rightarrow> Some s | _ \<Rightarrow> None)"

text \<open>
  Modelled from the spec: a positional argument of a request that is a string.
\<close>

fun as_str :: "pyval \<Rightarrow> string option" where
  "as_str (PyStr s) = Some s"
| "as_str v = None"

text \<open>
  Modelled from the spec: an operation on a bucket that does not exist fails.
\<close>

definition with_bucket ::
    "string \<Rightarrow> s3_world \<Rightarrow> (bucket \<Rightarrow> (exn + pyval) \<times> s3_world) \<Rightarrow> (exn + pyval) \<times> s3_world" where
  "with_bucket b w f =
     (case buckets w b of None \<Rightarrow> (Inl (client_error ''NoSuchBucket''), w) | Some bk \<Rightarrow> f bk)"

text \<open>
  Modelled from the spec: the world with one bucket replaced.
\<close>

definition set_bucket :: "string \<Rightarrow> bucket \<Rightarrow> s3_world \<Rightarrow> s3_world" where
  "set_bucket b bk w = w\<lparr>buckets := (buckets w)(b \<mapsto> bk)\<rparr>"

text \<open>
  Modelled from the spec: create bucket. A second call against an existing bucket
  succeeds or fails by the region rule.
\<close>

definition create_bucket_op :: "string option \<Rightarrow> string \<Rightarrow> s3_world \<Rightarrow> (exn + pyval) \<times> s3_world" where
  "create_bucket_op region b w =
     (case buckets w b of
        Some bk \<Rightarrow>
          (if region = None \<or> region = Some ''us-east-1'' then (Inr ok_response, w)
           else (Inl (client_error ''BucketAlreadyOwnedByYou''), w))
      | None \<Rightarrow>
          (Inr ok_response,
           set_bucket b \<lparr>versioning = Unversioned, entries = [], access_block = None,
                         policy = None\<rparr> w))"

text \<open>
  Modelled from the spec: upload. Fails when the local path cannot be read or the
  bucket does not exist; otherwise stores the file's contents under the key.
\<close>

definition upload_file_op :: "string \<Rightarrow> string \<Rightarrow> string \<Rightarrow> s3_world \<Rightarrow> (exn + pyval) \<times> s3_world" where
  "upload_file_op path b k w =
     (case files w path of
        None \<Rightarrow> (Inl (PyExc ''FileNotFoundError'' path), w)
      | Some payload \<Rightarrow>
          (case buckets w b of
             None \<Rightarrow> (Inl (PyExc ''S3UploadFailedError'' ''NoSuchBucket''), w)
           | Some bk \<Rightarrow>
               (Inr PyNone,
                (set_bucket b (put_entry bk k payload (clock w)) w)\<lparr>clock := Suc (clock w)\<rparr>)))"

text \<open>
  Modelled from the spec: download. Retrieves the current (latest, non-deleted) version
  and writes it to the local path; fails when there is none or the write fails.
\<close>

definition download_file_op :: "string \<Rightarrow> string \<Rightarrow> string \<Rightarrow> s3_world \<Rightarrow> (exn + pyval) \<times> s3_world" where
  "download_file_op b k path w =
     with_bucket b w (\<lambda>bk.
       case latest bk k of
         None \<Rightarrow> (Inl (client_error ''404''), w)
       | Some e \<Rightarrow>
           if e_marker e then (Inl (client_error ''404''), w)
           else if path \<in> unwritable w then (Inl (PyExc ''PermissionError'' path), w)
           else (Inr PyNone, w\<lparr>files := (files w)(path \<mapsto> e_payload e)\<rparr>))"

text \<open>
  Modelled from the spec: public-access block. Replaces the bucket's settings with the
  supplied configuration.
\<close>

definition put_public_access_block_op ::
    "string \<Rightarrow> pyval \<Rightarrow> s3_world \<Rightarrow> (exn + pyval) \<times> s3_world" where
  "put_public_access_block_op b cfg w =
     with_bucket b w (\<lambda>bk. (Inr ok_response, set_bucket b (bk\<lparr>access_block := Some cfg\<rparr>) w))"

text \<open>
  Modelled from the spec: bucket policy. Attaches the serialised policy to the bucket and
  acknowledges.
\<close>

definition put_bucket_policy_op ::
    "string \<Rightarrow> string \<Rightarrow> s3_world \<Rightarrow> (exn + pyval) \<times> s3_world" where
  "put_bucket_policy_op b pol w =
     with_bucket b w (\<lambda>bk. (Inr ok_response, set_bucket b (bk\<lparr>policy := Some pol\<rparr>) w))"

text \<open>
  Modelled from the spec: the versioning status is \<open>Unversioned\<close>, then \<open>Enabled\<close> or
  \<open>Suspended\<close>; once set it is never unversioned again.
\<close>

definition put_bucket_versioning_op ::
    "string \<Rightarrow> pyval \<Rightarrow> s3_world \<Rightarrow> (exn + pyval) \<times> s3_world" where
  "put_bucket_versioning_op b cfg w =
     with_bucket b w (\<lambda>bk.
       if py_getitem cfg ''Status'' = Inr (PyStr ''Enabled'')
       then (Inr ok_response, set_bucket b (bk\<lparr>versioning := Enabled\<rparr>) w)
       else if py_getitem cfg ''Status'' = Inr (PyStr ''Suspended'')
       then (Inr ok_response, set_bucket b (bk\<lparr>versioning := Suspended\<rparr>) w)
       else (Inl (client_error ''MalformedXML''), w))"

text \<open>
  Modelled from the spec: list objects. The current object keys (latest entry not a
  delete marker) that start with the prefix, in lexicographic order, one page of them;
  the response has no \<^verbatim>\<open>Contents\<close> when no key matches.
\<close>

definition current_keys :: "bucket \<Rightarrow> string \<Rightarrow> string list" where
  "current_keys bk p =
     sort (map (\<lambda>r. e_key (fst r))
             (filter (\<lambda>r. snd r \<and> \<not> e_marker (fst r) \<and> prefix p (e_key (fst r))) (rows bk)))"

text \<open>
  Modelled from the spec: the summary of one listed object.
\<close>

definition object_summary :: "string \<Rightarrow> pyval" where
  "object_summary k = PyDict [(''Key'', PyStr k)]"

text \<open>
  Modelled from the spec: the response to a listing of objects, one page of the current
  keys with the flag that says whether more exist.
\<close>

definition list_objects_v2_op :: "string \<Rightarrow> string \<Rightarrow> s3_world \<Rightarrow> (exn + pyval) \<times> s3_world" where
  "list_objects_v2_op b p w =
     with_bucket b w (\<lambda>bk.
       let page = take (page_size w) (current_keys bk p) in
       (Inr (PyDict
          ([(''Name'', PyStr b), (''Prefix'', PyStr p),
            (''MaxKeys'', PyInt (int (page_size w))),
            (''KeyCount'', PyInt (int (length page))),
            (''IsTruncated'', PyBool (page_size w < length (current_keys bk p)))]
           @ (if page = [] then [] else [(''Contents'', PyList (map object_summary page))]))),
        w))"

text \<open>
  Modelled from the spec: list object versions. The retained versions and the delete
  markers whose key starts with the prefix, by key and newest first within a key, one
  page of them, split into the two sequences \<^verbatim>\<open>Versions\<close> and \<^verbatim>\<open>DeleteMarkers\<close>;
  a sequence that would be empty is left out of the response.
\<close>

definition matching_rows :: "bucket \<Rightarrow> string \<Rightarrow> (entry \<times> bool) list" where
  "matching_rows bk p =
     sort_key (\<lambda>r. e_key (fst r)) (filter (\<lambda>r. prefix p (e_key (fst r))) (rows bk))"

text \<open>
  Modelled from the spec: one listed version or delete marker, with its key, version id,
  latest flag and last-modified time.
\<close>

definition version_dict :: "entry \<times> bool \<Rightarrow> pyval" where
  "version_dict r =
     PyDict [(''Key'', PyStr (e_key (fst r))), (''VersionId'', PyStr (e_version_id (fst r))),
             (''IsLatest'', PyBool (snd r)), (''LastModified'', PyInt (int (e_modified (fst r))))]"

text \<open>
  Modelled from the spec: the retained versions within the one page of a listing.
\<close>

definition page_versions :: "s3_world \<Rightarrow> bucket \<Rightarrow> string \<Rightarrow> (entry \<times> bool) list" where
  "page_versions w bk p =
     filter (\<lambda>r. \<not> e_marker (fst r)) (take (page_size w) (matching_rows bk p))"

text \<open>
  Modelled from the spec: the delete markers within the one page of a listing.
\<close>

definition page_markers :: "s3_world \<Rightarrow> bucket \<Rightarrow> string \<Rightarrow> (entry \<times> bool) list" where
  "page_markers w bk p =
     filter (\<lambda>r. e_marker (fst r)) (take (page_size w) (matching_rows bk p))"

text \<open>
  Modelled from the spec: the response to a listing of versions.
\<close>

definition list_object_versions_op ::
    "string \<Rightarrow> string \<Rightarrow> s3_world \<Rightarrow> (exn + pyval) \<times> s3_world" where
  "list_object_versions_op b p w =
     with_bucket b w (\<lambda>bk.
       (Inr (PyDict
          ([(''Name'', PyStr b), (''Prefix'', PyStr p),
            (''MaxKeys'', PyInt (int (page_size w))),
            (''IsTruncated'', PyBool (page_size w < length (matching_rows bk p)))]
           @ (if page_versions w bk p = [] then []
              else [(''Versions'', PyList (map version_dict (page_versions w bk p)))])
           @ (if page_markers w bk p = [] then []
              else [(''DeleteMarkers'', PyList (map version_dict (page_markers w bk p)))]))),
        w))"

text \<open>
  Modelled from the spec: deleting one (key, version id) pair removes that version or
  delete marker and nothing else.
\<close>

definition delete_object_op ::
    "string \<Rightarrow> string \<Rightarrow> string \<Rightarrow> s3_world \<Rightarrow> (exn + pyval) \<times> s3_world" where
  "delete_object_op b k v w =
     with_bucket b w (\<lambda>bk.
       (Inr ok_response,
        set_bucket b (bk\<lparr>entries := filter (\<lambda>e. entry_id e \<noteq> (k, v)) (entries bk)\<rparr>) w))"

text \<open>
  Modelled from the spec: deleting a bucket requires zero remaining objects, versions
  and delete markers.
\<close>

definition delete_bucket_op :: "string \<Rightarrow> s3_world \<Rightarrow> (exn + pyval) \<times> s3_world" where
  "delete_bucket_op b w =
     with_bucket b w (\<lambda>bk.
       if entries bk = [] then (Inr ok_response, w\<lparr>buckets := (buckets w)(b := None)\<rparr>)
       else (Inl (client_error ''BucketNotEmpty''), w))"

text \<open>
  Modelled from the spec: a call whose arguments do not fit its operation is refused as a
  malformed request.
\<close>

definition bad_request :: "s3_world \<Rightarrow> (exn + pyval) \<times> s3_world" where
  "bad_request w = (Inl (PyExc ''ParamValidationError'' ''Parameter validation failed''), w)"

text \<open>
  Modelled from the spec: the client, which maps each of the method calls the notebook
  makes onto the service's operation of that name.
\<close>

definition s3_service :: "string option \<Rightarrow> s3_world client" where
  "s3_service region r w =
     (if r_method r = ''create_bucket'' then
        (case kw_str r ''Bucket'' of Some b \<Rightarrow> create_bucket_op region b w
         | None \<Rightarrow> bad_request w)
      else if r_method r = ''upload_file'' then
        (case map as_str (r_args r) of
           [Some path, Some b, Some k] \<Rightarrow> upload_file_op path b k w
         | _ \<Rightarrow> bad_request w)
      else if r_method r = ''download_file'' then
        (case map as_str (r_args r) of
           [Some b, Some k, Some path] \<Rightarrow> download_file_op b k path w
         | _ \<Rightarrow> bad_request w)
      else if r_method r = ''put_public_access_block'' then
        (case (kw_str r ''Bucket'', map_of (r_kwargs r) ''PublicAccessBlockConfiguration'') of
           (Some b, Some cfg) \<Rightarrow> put_public_access_block_op b cfg w
         | _ \<Rightarrow> bad_request w)
      else if r_method r = ''put_bucket_policy'' then
        (case (kw_str r ''Bucket'', kw_str r ''Policy'') of
           (Some b, Some pol) \<Rightarrow> put_bucket_policy_op b pol w
         | _ \<Rightarrow> bad_request w)
      else if r_method r = ''put_bucket_versioning'' then
        (case (kw_str r ''Bucket'', map_of (r_kwargs r) ''VersioningConfiguration'') of
           (Some b, Some cfg) \<Rightarrow> put_bucket_versioning_op b cfg w
         | _ \<Rightarrow> bad_request w)
      else if r_method r = ''list_objects_v2'' then
        (case (kw_str r ''Bucket'', map_of (r_kwargs r) ''Prefix'') of
           (Some b, None) \<Rightarrow> list_objects_v2_op b [] w
         | (Some b, Some (PyStr p)) \<Rightarrow> list_objects_v2_op b p w
         | _ \<Rightarrow> bad_request w)
      else if r_method r = ''list_object_versions'' then
        (case (kw_str r ''Bucket'', map_of (r_kwargs r) ''Prefix'') of
           (Some b, None) \<Rightarrow> list_object_versions_op b [] w
         | (Some b, Some (PyStr p)) \<Rightarrow> list_object_versions_op b p w
         | _ \<Rightarrow> bad_request w)
      else if r_method r = ''delete_object'' then
        (case (kw_str r ''Bucket'', kw_str r ''Key'', kw_str r ''VersionId'') of
           (Some b, Some k, Some v) \<Rightarrow> delete_object_op b k v w
         | _ \<Rightarrow> bad_request w)
      else if r_method r = ''delete_bucket'' then
        (case kw_str r ''Bucket'' of Some b \<Rightarrow> delete_bucket_op b w
         | None \<Rightarrow> bad_request w)
      else (Inl (PyExc ''AttributeError'' (r_method r)), w))"

text \<open>
  Modelled from the spec: \<^verbatim>\<open>boto3.client\<close>, which builds the client of the storage service
  for a region and refuses any other service name.
\<close>

definition s3_boto3 :: "s3_world boto3" where
  "s3_boto3 service region =
     (if service = ''s3'' then Inr (s3_service region)
      else Inl (PyExc ''UnknownServiceError'' service))"

text \<open>A client without a network connection: every call raises.\<close>

definition offline_client :: "'w client" where
  "offline_client r w = (Inl (PyExc ''EndpointConnectionError'' ''Could not connect''), w)"

definition offline_boto3 :: "'w boto3" where
  "offline_boto3 service region = Inr offline_client"

definition env0 :: "'w \<Rightarrow> 'w env" where
  "env0 w = \<lparr>world = w, stdout = [], calls = []\<rparr>"

text \<open>The arguments the notebook passes in its cells 40 and 53.\<close>

definition public_access_configuration :: pyval where
  "public_access_configuration =
     PyDict [(''BlockPublicAcls'', PyBool False), (''IgnorePublicAcls'', PyBool False),
             (''BlockPublicPolicy'', PyBool False), (''RestrictPublicBuckets'', PyBool False)]"

definition versioning_config :: pyval where
  "versioning_config = PyDict [(''Status'', PyStr ''Enabled'')]"

text \<open>\<^verbatim>\<open>json.dumps\<close> on the one value the examples serialise, the empty dict.\<close>

definition dumps_empty :: "pyval \<Rightarrow> exn + string" where
  "dumps_empty v =
     (if v = PyDict [] then Inr ''{}''
      else Inl (PyExc ''TypeError'' ''Object is not JSON serializable''))"

definition empty_world :: s3_world where
  "empty_world =
     \<lparr>buckets = Map.empty, files = Map.empty, unwritable = {}, clock = 0, page_size = 1000\<rparr>"

text \<open>
  Modelled from the spec: the well-formed buckets. Within a bucket a (key, version id)
  pair names one entry, and every version identifier other than \<^verbatim>\<open>null\<close> was issued at
  an earlier tick of the clock.
\<close>

definition wf_bucket :: "nat \<Rightarrow> bucket \<Rightarrow> bool" where
  "wf_bucket t bk \<longleftrightarrow>
     distinct (map entry_id (entries bk))
     \<and> list_all (\<lambda>e. e_version_id e = ''null'' \<or> e_version_id e \<in> set (map version_id_of [0..<t]))
          (entries bk)"

text \<open>
  Modelled from the spec: the well-formed states of the service, in which every bucket is
  well formed.
\<close>

definition wf_world :: "s3_world \<Rightarrow> bool" where
  "wf_world w \<longleftrightarrow> (\<forall>b bk. buckets w b = Some bk \<longrightarrow> wf_bucket (clock w) bk)"

text \<open>
  Example states of the service. \<open>demo_world\<close> is the notebook's bucket after its uploads,
  with one more key that has been deleted (a delete marker over a retained version);
  \<open>fresh_world\<close> is the bucket just created; \<open>crowded_world\<close> holds 1001 objects, one more
  than a listing returns.
\<close>

definition demo_bucket :: bucket where
  "demo_bucket =
     \<lparr>versioning = Enabled,
      entries =
        [\<lparr>e_key = ''tmp/old.txt'', e_version_id = ''v1111'', e_marker = True,
          e_payload = [], e_modified = 4\<rparr>,
         \<lparr>e_key = ''tmp/old.txt'', e_version_id = ''v111'', e_marker = False,
          e_payload = ''old'', e_modified = 3\<rparr>,
         \<lparr>e_key = ''images/AWS-Logo.png'', e_version_id = ''v11'', e_marker = False,
          e_payload = ''logo-v2'', e_modified = 2\<rparr>,
         \<lparr>e_key = ''images/AWS-Logo.png'', e_version_id = ''null'', e_marker = False,
          e_payload = ''logo-v1'', e_modified = 1\<rparr>,
         \<lparr>e_key = ''csv/ratings_ml_training_dataset.csv'', e_version_id = ''null'',
          e_marker = False, e_payload = ''user,rating'', e_modified = 0\<rparr>],
      access_block = None, policy = None\<rparr>"

definition demo_world :: s3_world where
  "demo_world =
     \<lparr>buckets = [BUCKET_NAME \<mapsto> demo_bucket],
      files = [''data/json/delivery-stream-one-record.json'' \<mapsto> ''{}'',
               ''data/images/v1/AWS-Logo.png'' \<mapsto> ''logo-v1'',
               ''data/images/v2/AWS-Logo.png'' \<mapsto> ''logo-v2''],
      unwritable = {}, clock = 5, page_size = 1000\<rparr>"

definition fresh_world :: s3_world where
  "fresh_world =
     \<lparr>buckets = [BUCKET_NAME \<mapsto> \<lparr>versioning = Unversioned, entries = [],
                                    access_block = None, policy = None\<rparr>],
      files = Map.empty, unwritable = {}, clock = 0, page_size = 1000\<rparr>"

definition object_key_of :: "nat \<Rightarrow> string" where
  "object_key_of i = ''csv/part'' @ replicate i (CHR ''0'')"

definition many_objects :: bucket where
  "many_objects =
     \<lparr>versioning = Unversioned,
      entries = map (\<lambda>i. \<lparr>e_key = object_key_of i, e_version_id = ''null'', e_marker = False,
                           e_payload = [], e_modified = 1000 - i\<rparr>) [0..<1001],
      access_block = None, policy = None\<rparr>"

definition crowded_world :: s3_world where
  "crowded_world =
     \<lparr>buckets = [BUCKET_NAME \<mapsto> many_objects], files = Map.empty, unwritable = {},
      clock = 1001, page_size = 1000\<rparr>"

section \<open>What each function does with the answer of its remote call\<close>

lemmas prog_defs = bind_def lift_def ret_def try_except_def py_print_def invoke_def

lemma invoke_raises:
  "c r (world s) = (Inl e, w') \<Longrightarrow>
     invoke c r s = (Inl e, s\<lparr>world := w', calls := calls s @ [r]\<rparr>)"
  by (simp add: invoke_def)

lemma invoke_returns:
  "c r (world s) = (Inr x, w') \<Longrightarrow>
     invoke c r s = (Inr x, s\<lparr>world := w', calls := calls s @ [r]\<rparr>)"
  by (simp add: invoke_def)

lemma create_s3_bucket_run:
  assumes "B ''s3'' (Some region) = Inr c"
  shows "create_s3_bucket B name region s =
     (case c (Request ''create_bucket'' [] [(''Bucket'', PyStr name)]) (world s) of
        (Inr x, w') \<Rightarrow>
          (Inr PyNone,
           s\<lparr>world := w',
             calls := calls s @ [Request ''create_bucket'' [] [(''Bucket'', PyStr name)]],
             stdout := stdout s @ [[PyStr (''S3 bucket '' @ q @ name @ q
                    @ '' created successfully in region '' @ q @ region @ q @ ''.'')]]\<rparr>)
      | (Inl e, w') \<Rightarrow>
          (Inr PyNone,
           s\<lparr>world := w',
             calls := calls s @ [Request ''create_bucket'' [] [(''Bucket'', PyStr name)]],
             stdout := stdout s @ [[PyStr (''An error occurred: '' @ exc_str e)]]\<rparr>))"
  using assms by (simp add: create_s3_bucket_def prog_defs split: prod.splits sum.splits)

lemma upload_file_to_s3_run:
  assumes "B ''s3'' None = Inr c"
  shows "upload_file_to_s3 B path name k s =
     (case c (Request ''upload_file'' [PyStr path, PyStr name, PyStr k] []) (world s) of
        (Inr x, w') \<Rightarrow>
          (Inr PyNone,
           s\<lparr>world := w',
             calls := calls s @ [Request ''upload_file'' [PyStr path, PyStr name, PyStr k] []],
             stdout := stdout s @ [[PyStr (''File '' @ path @ '' uploaded to s3://''
                    @ name @ ''/'' @ k @ '' successfully.'')]]\<rparr>)
      | (Inl e, w') \<Rightarrow>
          (Inr PyNone,
           s\<lparr>world := w',
             calls := calls s @ [Request ''upload_file'' [PyStr path, PyStr name, PyStr k] []],
             stdout := stdout s @ [[PyStr (''Error uploading file to S3: '' @ exc_str e)]]\<rparr>))"
  using assms by (simp add: upload_file_to_s3_def prog_defs split: prod.splits sum.splits)

lemma download_object_from_s3_run:
  assumes "B ''s3'' None = Inr c"
  shows "download_object_from_s3 B name k path s =
     (case c (Request ''download_file'' [PyStr name, PyStr k, PyStr path] []) (world s) of
        (Inr x, w') \<Rightarrow>
          (Inr PyNone,
           s\<lparr>world := w',
             calls := calls s @ [Request ''download_file'' [PyStr name, PyStr k, PyStr path] []]\<rparr>)
      | (Inl e, w') \<Rightarrow>
          (Inr PyNone,
           s\<lparr>world := w',
             calls := calls s @ [Request ''download_file'' [PyStr name, PyStr k, PyStr path] []],
             stdout := stdout s
                @ [[PyStr (''Error downloading or printing JSON file: '' @ exc_str e)]]\<rparr>))"
  using assms by (simp add: download_object_from_s3_def prog_defs split: prod.splits sum.splits)

text \<open>
  Claim C1, as amended. Once the client is built, \<^verbatim>\<open>create_s3_bucket\<close>,
  \<^verbatim>\<open>upload_file_to_s3\<close> and \<^verbatim>\<open>download_object_from_s3\<close> catch the exception their remote
  call raises, print one message that ends with its text and return \<^verbatim>\<open>None\<close>. The other
  six functions have no handler: when their first remote call raises, the same exception
  is raised to the caller and nothing is printed.
\<close>

theorem remote_errors_caught_only_by_three:
  assumes "B ''s3'' (Some region) = Inr c1" and "B ''s3'' None = Inr c"
  shows
    "(c1 (Request ''create_bucket'' [] [(''Bucket'', PyStr name)]) (world s) = (Inl e, w') \<longrightarrow>
        create_s3_bucket B name region s =
          (Inr PyNone,
           s\<lparr>world := w',
             calls := calls s @ [Request ''create_bucket'' [] [(''Bucket'', PyStr name)]],
             stdout := stdout s @ [[PyStr (''An error occurred: '' @ exc_str e)]]\<rparr>))
   \<and> (c (Request ''upload_file'' [PyStr path, PyStr name, PyStr k] []) (world s) = (Inl e, w') \<longrightarrow>
        upload_file_to_s3 B path name k s =
          (Inr PyNone,
           s\<lparr>world := w',
             calls := calls s @ [Request ''upload_file'' [PyStr path, PyStr name, PyStr k] []],
             stdout := stdout s @ [[PyStr (''Error uploading file to S3: '' @ exc_str e)]]\<rparr>))
   \<and> (c (Request ''download_file'' [PyStr name, PyStr k, PyStr path] []) (world s) = (Inl e, w') \<longrightarrow>
        download_object_from_s3 B name k path s =
          (Inr PyNone,
           s\<lparr>world := w',
             calls := calls s @ [Request ''download_file'' [PyStr name, PyStr k, PyStr path] []],
             stdout := stdout s
                @ [[PyStr (''Error downloading or printing JSON file: '' @ exc_str e)]]\<rparr>))
   \<and> (c (Request ''put_public_access_block'' []
            [(''Bucket'', PyStr name), (''PublicAccessBlockConfiguration'', cfg)]) (world s)
         = (Inl e, w') \<longrightarrow>
        s3_public_access_setup B name cfg s =
          (Inl e,
           s\<lparr>world := w',
             calls := calls s @ [Request ''put_public_access_block'' []
               [(''Bucket'', PyStr name), (''PublicAccessBlockConfiguration'', cfg)]]\<rparr>))
   \<and> (dumps pol = Inr j \<and>
       c (Request ''put_bucket_policy'' [] [(''Bucket'', PyStr name), (''Policy'', PyStr j)])
         (world s) = (Inl e, w') \<longrightarrow>
        s3_put_bucket_policy B dumps name pol s =
          (Inl e,
           s\<lparr>world := w',
             calls := calls s @ [Request ''put_bucket_policy'' []
               [(''Bucket'', PyStr name), (''Policy'', PyStr j)]]\<rparr>))
   \<and> (c (Request ''put_bucket_versioning'' []
            [(''Bucket'', PyStr name), (''VersioningConfiguration'', vcfg)]) (world s)
         = (Inl e, w') \<longrightarrow>
        configure_bucket_versioning B name vcfg s =
          (Inl e,
           s\<lparr>world := w',
             calls := calls s @ [Request ''put_bucket_versioning'' []
               [(''Bucket'', PyStr name), (''VersioningConfiguration'', vcfg)]]\<rparr>))
   \<and> (c (Request ''list_objects_v2'' [] [(''Bucket'', PyStr name), (''Prefix'', PyStr p)])
         (world s) = (Inl e, w') \<longrightarrow>
        list_objects_in_folder B name p s =
          (Inl e,
           s\<lparr>world := w',
             calls := calls s @ [Request ''list_objects_v2'' []
               [(''Bucket'', PyStr name), (''Prefix'', PyStr p)]]\<rparr>))
   \<and> (c (Request ''list_object_versions'' [] [(''Bucket'', PyStr name), (''Prefix'', PyStr p)])
         (world s) = (Inl e, w') \<longrightarrow>
        list_object_versions B name p s =
          (Inl e,
           s\<lparr>world := w',
             calls := calls s @ [Request ''list_object_versions'' []
               [(''Bucket'', PyStr name), (''Prefix'', PyStr p)]]\<rparr>))
   \<and> (c (Request ''list_object_versions'' [] [(''Bucket'', PyStr name)]) (world s)
         = (Inl e, w') \<longrightarrow>
        s3_delete_bucket B name True s =
          (Inl e,
           s\<lparr>world := w',
             calls := calls s @ [Request ''list_object_versions'' []
               [(''Bucket'', PyStr name)]]\<rparr>))
   \<and> (c (Request ''delete_bucket'' [] [(''Bucket'', PyStr name)]) (world s) = (Inl e, w') \<longrightarrow>
        s3_delete_bucket B name False s =
          (Inl e,
           s\<lparr>world := w',
             calls := calls s @ [Request ''delete_bucket'' [] [(''Bucket'', PyStr name)]]\<rparr>))"
proof (intro conjI impI)
  assume "c1 (Request ''create_bucket'' [] [(''Bucket'', PyStr name)]) (world s) = (Inl e, w')"
  then show "create_s3_bucket B name region s =
          (Inr PyNone,
           s\<lparr>world := w',
             calls := calls s @ [Request ''create_bucket'' [] [(''Bucket'', PyStr name)]],
             stdout := stdout s @ [[PyStr (''An error occurred: '' @ exc_str e)]]\<rparr>)"
    by (simp add: create_s3_bucket_run [where B=B and c=c1, OF assms(1)])
next
  assume "c (Request ''upload_file'' [PyStr path, PyStr name, PyStr k] []) (world s) = (Inl e, w')"
  then show "upload_file_to_s3 B path name k s =
          (Inr PyNone,
           s\<lparr>world := w',
             calls := calls s @ [Request ''upload_file'' [PyStr path, PyStr name, PyStr k] []],
             stdout := stdout s @ [[PyStr (''Error uploading file to S3: '' @ exc_str e)]]\<rparr>)"
    by (simp add: upload_file_to_s3_run [where B=B and c=c, OF assms(2)])
next
  assume "c (Request ''download_file'' [PyStr name, PyStr k, PyStr path] []) (world s) = (Inl e, w')"
  then show "download_object_from_s3 B name k path s =
          (Inr PyNone,
           s\<lparr>world := w',
             calls := calls s @ [Request ''download_file'' [PyStr name, PyStr k, PyStr path] []],
             stdout := stdout s
                @ [[PyStr (''Error downloading or printing JSON file: '' @ exc_str e)]]\<rparr>)"
    by (simp add: download_object_from_s3_run [where B=B and c=c, OF assms(2)])
qed (simp_all add: assms(2) s3_public_access_setup_def s3_put_bucket_policy_def
       configure_bucket_versioning_def list_objects_in_folder_def list_object_versions_def
       s3_delete_bucket_def bind_def lift_def ret_def invoke_raises)

theorem remote_errors_caught_only_by_three_witness:
  "create_s3_bucket offline_boto3 BUCKET_NAME AWS_DEFAULT_REGION (env0 ()) =
     (Inr PyNone,
      \<lparr>world = (), stdout = [[PyStr ''An error occurred: Could not connect'']],
       calls = [Request ''create_bucket'' [] [(''Bucket'', PyStr BUCKET_NAME)]]\<rparr>)
   \<and> upload_file_to_s3 offline_boto3 ''a.csv'' BUCKET_NAME ''csv/a.csv'' (env0 ()) =
     (Inr PyNone,
      \<lparr>world = (), stdout = [[PyStr ''Error uploading file to S3: Could not connect'']],
       calls = [Request ''upload_file''
                  [PyStr ''a.csv'', PyStr BUCKET_NAME, PyStr ''csv/a.csv''] []]\<rparr>)
   \<and> download_object_from_s3 offline_boto3 BUCKET_NAME ''csv/a.csv'' ''a.csv'' (env0 ()) =
     (Inr PyNone,
      \<lparr>world = (),
       stdout = [[PyStr ''Error downloading or printing JSON file: Could not connect'']],
       calls = [Request ''download_file''
                  [PyStr BUCKET_NAME, PyStr ''csv/a.csv'', PyStr ''a.csv''] []]\<rparr>)
   \<and> s3_public_access_setup offline_boto3 BUCKET_NAME public_access_configuration (env0 ()) =
     (Inl (PyExc ''EndpointConnectionError'' ''Could not connect''),
      \<lparr>world = (), stdout = [],
       calls = [Request ''put_public_access_block'' []
                  [(''Bucket'', PyStr BUCKET_NAME),
                   (''PublicAccessBlockConfiguration'', public_access_configuration)]]\<rparr>)
   \<and> s3_put_bucket_policy offline_boto3 dumps_empty BUCKET_NAME (PyDict []) (env0 ()) =
     (Inl (PyExc ''EndpointConnectionError'' ''Could not connect''),
      \<lparr>world = (), stdout = [],
       calls = [Request ''put_bucket_policy'' []
                  [(''Bucket'', PyStr BUCKET_NAME), (''Policy'', PyStr ''{}'')]]\<rparr>)
   \<and> configure_bucket_versioning offline_boto3 BUCKET_NAME versioning_config (env0 ()) =
     (Inl (PyExc ''EndpointConnectionError'' ''Could not connect''),
      \<lparr>world = (), stdout = [],
       calls = [Request ''put_bucket_versioning'' []
                  [(''Bucket'', PyStr BUCKET_NAME),
                   (''VersioningConfiguration'', versioning_config)]]\<rparr>)
   \<and> list_objects_in_folder offline_boto3 BUCKET_NAME ''images'' (env0 ()) =
     (Inl (PyExc ''EndpointConnectionError'' ''Could not connect''),
      \<lparr>world = (), stdout = [],
       calls = [Request ''list_objects_v2'' []
                  [(''Bucket'', PyStr BUCKET_NAME), (''Prefix'', PyStr ''images'')]]\<rparr>)
   \<and> list_object_versions offline_boto3 BUCKET_NAME ''images'' (env0 ()) =
     (Inl (PyExc ''EndpointConnectionError'' ''Could not connect''),
      \<lparr>world = (), stdout = [],
       calls = [Request ''list_object_versions'' []
                  [(''Bucket'', PyStr BUCKET_NAME), (''Prefix'', PyStr ''images'')]]\<rparr>)
   \<and> s3_delete_bucket offline_boto3 BUCKET_NAME True (env0 ()) =
     (Inl (PyExc ''EndpointConnectionError'' ''Could not connect''),
      \<lparr>world = (), stdout = [],
       calls = [Request ''list_object_versions'' [] [(''Bucket'', PyStr BUCKET_NAME)]]\<rparr>)
   \<and> s3_delete_bucket offline_boto3 BUCKET_NAME False (env0 ()) =
     (Inl (PyExc ''EndpointConnectionError'' ''Could not connect''),
      \<lparr>world = (), stdout = [],
       calls = [Request ''delete_bucket'' [] [(''Bucket'', PyStr BUCKET_NAME)]]\<rparr>)"
proof -
  have h1: "offline_boto3 ''s3'' (Some AWS_DEFAULT_REGION) = Inr (offline_client :: unit client)"
    by (simp add: offline_boto3_def)
  have h2: "offline_boto3 ''s3'' None = Inr (offline_client :: unit client)"
    by (simp add: offline_boto3_def)
  have h3: "dumps_empty (PyDict []) = Inr ''{}''"
    by (simp add: dumps_empty_def)
  have h4: "\<And>r. (offline_client :: unit client) r (world (env0 ())) =
      (Inl (PyExc ''EndpointConnectionError'' ''Could not connect''), ())"
    by (simp add: offline_client_def)
  show ?thesis
    using remote_errors_caught_only_by_three [where B=offline_boto3 and region=AWS_DEFAULT_REGION
        and ?c1.0=offline_client and c=offline_client and s="env0 ()" and w'="()"
        and e="PyExc ''EndpointConnectionError'' ''Could not connect''"
        and name=BUCKET_NAME and path="''a.csv''" and k="''csv/a.csv''" and p="''images''"
        and cfg=public_access_configuration and vcfg=versioning_config
        and dumps=dumps_empty and pol="PyDict []" and j="''{}''", OF h1 h2]
      h3 h4
    by (simp add: env0_def)
qed

text \<open>
  Claim C1 as stated fails: without a network connection the four functions it names
  raise the client's exception to their caller and print nothing.
\<close>

theorem unhandled_errors_counterexample:
  "fst (s3_public_access_setup offline_boto3 BUCKET_NAME public_access_configuration (env0 ()))
     = Inl (PyExc ''EndpointConnectionError'' ''Could not connect'')
   \<and> fst (configure_bucket_versioning offline_boto3 BUCKET_NAME versioning_config (env0 ()))
     = Inl (PyExc ''EndpointConnectionError'' ''Could not connect'')
   \<and> fst (s3_put_bucket_policy offline_boto3 dumps_empty BUCKET_NAME (PyDict []) (env0 ()))
     = Inl (PyExc ''EndpointConnectionError'' ''Could not connect'')
   \<and> fst (s3_delete_bucket offline_boto3 BUCKET_NAME True (env0 ()))
     = Inl (PyExc ''EndpointConnectionError'' ''Could not connect'')
   \<and> stdout (snd (s3_delete_bucket offline_boto3 BUCKET_NAME True (env0 ()))) = []"
  by (simp add: s3_public_access_setup_def configure_bucket_versioning_def
        s3_put_bucket_policy_def s3_delete_bucket_def offline_boto3_def offline_client_def
        dumps_empty_def env0_def prog_defs)

section \<open>The request that creates a bucket\<close>

text \<open>
  Claim C10. Once the client for the region is built, \<^verbatim>\<open>create_s3_bucket\<close> sends one
  request, \<^verbatim>\<open>create_bucket(Bucket=name)\<close>, with no other argument, and returns \<^verbatim>\<open>None\<close>.
  The region is passed to \<^verbatim>\<open>boto3.client\<close> and written into the message printed on
  success, and nowhere else: the message printed on failure is the exception's text. So
  two regions whose clients answer that request alike leave the same world, the same
  requests and the same return value; they print the same line when the call fails, and
  lines that differ in the region's name only when it succeeds.
\<close>

theorem create_bucket_request_ignores_region:
  assumes "B ''s3'' (Some r1) = Inr c1" and "B ''s3'' (Some r2) = Inr c2"
  shows "create_s3_bucket B name r1 s =
           (case c1 (Request ''create_bucket'' [] [(''Bucket'', PyStr name)]) (world s) of
              (Inr x, w') \<Rightarrow>
                (Inr PyNone,
                 s\<lparr>world := w',
                   calls := calls s @ [Request ''create_bucket'' [] [(''Bucket'', PyStr name)]],
                   stdout := stdout s @ [[PyStr (''S3 bucket '' @ q @ name @ q
                          @ '' created successfully in region '' @ q @ r1 @ q @ ''.'')]]\<rparr>)
            | (Inl e, w') \<Rightarrow>
                (Inr PyNone,
                 s\<lparr>world := w',
                   calls := calls s @ [Request ''create_bucket'' [] [(''Bucket'', PyStr name)]],
                   stdout := stdout s @ [[PyStr (''An error occurred: '' @ exc_str e)]]\<rparr>))
       \<and> (c1 (Request ''create_bucket'' [] [(''Bucket'', PyStr name)]) (world s)
            = c2 (Request ''create_bucket'' [] [(''Bucket'', PyStr name)]) (world s)
          \<longrightarrow> fst (create_s3_bucket B name r1 s) = fst (create_s3_bucket B name r2 s)
            \<and> world (snd (create_s3_bucket B name r1 s)) = world (snd (create_s3_bucket B name r2 s))
            \<and> calls (snd (create_s3_bucket B name r1 s)) = calls (snd (create_s3_bucket B name r2 s))
            \<and> (case fst (c1 (Request ''create_bucket'' [] [(''Bucket'', PyStr name)]) (world s)) of
                  Inl e \<Rightarrow>
                    stdout (snd (create_s3_bucket B name r1 s))
                      = stdout (snd (create_s3_bucket B name r2 s))
                | Inr x \<Rightarrow>
                    stdout (snd (create_s3_bucket B name r1 s))
                      = stdout s @ [[PyStr (''S3 bucket '' @ q @ name @ q
                          @ '' created successfully in region '' @ q @ r1 @ q @ ''.'')]]
                  \<and> stdout (snd (create_s3_bucket B name r2 s))
                      = stdout s @ [[PyStr (''S3 bucket '' @ q @ name @ q
                          @ '' created successfully in region '' @ q @ r2 @ q @ ''.'')]]))"
  by (simp add: create_s3_bucket_run [where B=B and region=r1 and c=c1, OF assms(1)]
        create_s3_bucket_run [where B=B and region=r2 and c=c2, OF assms(2)]
        split: prod.splits sum.splits)

lemma s3_create_fresh:
  "s3_service region (Request ''create_bucket'' [] [(''Bucket'', PyStr ''b1'')]) empty_world
    = (Inr ok_response, set_bucket ''b1'' \<lparr>versioning = Unversioned, entries = [], access_block = None,
                         policy = None\<rparr> empty_world)"
  by (simp add: s3_service_def kw_str_def create_bucket_op_def empty_world_def)

theorem create_bucket_request_ignores_region_witness:
  "create_s3_bucket s3_boto3 ''b1'' ''us-east-1'' (env0 empty_world) =
     (Inr PyNone,
      \<lparr>world = set_bucket ''b1'' \<lparr>versioning = Unversioned, entries = [], access_block = None,
                                  policy = None\<rparr> empty_world,
       stdout = [[PyStr (''S3 bucket '' @ q @ ''b1'' @ q
                   @ '' created successfully in region '' @ q @ ''us-east-1'' @ q @ ''.'')]],
       calls = [Request ''create_bucket'' [] [(''Bucket'', PyStr ''b1'')]]\<rparr>)
   \<and> create_s3_bucket s3_boto3 ''b1'' ''eu-west-1'' (env0 empty_world) =
     (Inr PyNone,
      \<lparr>world = set_bucket ''b1'' \<lparr>versioning = Unversioned, entries = [], access_block = None,
                                  policy = None\<rparr> empty_world,
       stdout = [[PyStr (''S3 bucket '' @ q @ ''b1'' @ q
                   @ '' created successfully in region '' @ q @ ''eu-west-1'' @ q @ ''.'')]],
       calls = [Request ''create_bucket'' [] [(''Bucket'', PyStr ''b1'')]]\<rparr>)
   \<and> create_s3_bucket offline_boto3 ''b1'' ''us-east-1'' (env0 ()) =
     (Inr PyNone,
      \<lparr>world = (), stdout = [[PyStr ''An error occurred: Could not connect'']],
       calls = [Request ''create_bucket'' [] [(''Bucket'', PyStr ''b1'')]]\<rparr>)
   \<and> stdout (snd (create_s3_bucket offline_boto3 ''b1'' ''us-east-1'' (env0 ())))
     = stdout (snd (create_s3_bucket offline_boto3 ''b1'' ''eu-west-1'' (env0 ())))"
proof -
  have h1: "s3_boto3 ''s3'' (Some ''us-east-1'') = Inr (s3_service (Some ''us-east-1''))"
    by (simp add: s3_boto3_def)
  have h2: "s3_boto3 ''s3'' (Some ''eu-west-1'') = Inr (s3_service (Some ''eu-west-1''))"
    by (simp add: s3_boto3_def)
  have h3: "s3_service (Some ''us-east-1'') (Request ''create_bucket'' [] [(''Bucket'', PyStr ''b1'')])
              (world (env0 empty_world))
          = s3_service (Some ''eu-west-1'') (Request ''create_bucket'' [] [(''Bucket'', PyStr ''b1'')])
              (world (env0 empty_world))"
    by (simp add: env0_def s3_create_fresh)
  have a: "s3_service (Some ''us-east-1'') (Request ''create_bucket'' [] [(''Bucket'', PyStr ''b1'')])
              (world (env0 empty_world))
          = (Inr ok_response,
             set_bucket ''b1'' \<lparr>versioning = Unversioned, entries = [], access_block = None,
                                 policy = None\<rparr> empty_world)"
    by (simp add: env0_def s3_create_fresh)
  have o1: "offline_boto3 ''s3'' (Some ''us-east-1'') = Inr (offline_client :: unit client)"
    by (simp add: offline_boto3_def)
  have o2: "offline_boto3 ''s3'' (Some ''eu-west-1'') = Inr (offline_client :: unit client)"
    by (simp add: offline_boto3_def)
  have o3: "(offline_client :: unit client) (Request ''create_bucket'' [] [(''Bucket'', PyStr ''b1'')])
              (world (env0 ()))
          = (Inl (PyExc ''EndpointConnectionError'' ''Could not connect''), ())"
    by (simp add: offline_client_def)
  have a': "s3_service (Some ''eu-west-1'') (Request ''create_bucket'' [] [(''Bucket'', PyStr ''b1'')])
              (world (env0 empty_world))
          = (Inr ok_response,
             set_bucket ''b1'' \<lparr>versioning = Unversioned, entries = [], access_block = None,
                                 policy = None\<rparr> empty_world)"
    by (simp add: env0_def s3_create_fresh)
  note t1 = create_bucket_request_ignores_region [where B=s3_boto3 and ?r1.0="''us-east-1''"
        and ?r2.0="''eu-west-1''" and name="''b1''" and s="env0 empty_world", OF h1 h2]
  note t2 = create_bucket_request_ignores_region [where B=s3_boto3 and ?r1.0="''eu-west-1''"
        and ?r2.0="''us-east-1''" and name="''b1''" and s="env0 empty_world", OF h2 h1]
  note t3 = create_bucket_request_ignores_region [where B=offline_boto3 and ?r1.0="''us-east-1''"
        and ?r2.0="''eu-west-1''" and name="''b1''" and s="env0 ()", OF o1 o2]
  have e1: "create_s3_bucket s3_boto3 ''b1'' ''us-east-1'' (env0 empty_world) =
     (Inr PyNone,
      \<lparr>world = set_bucket ''b1'' \<lparr>versioning = Unversioned, entries = [], access_block = None,
                                  policy = None\<rparr> empty_world,
       stdout = [[PyStr (''S3 bucket '' @ q @ ''b1'' @ q
                   @ '' created successfully in region '' @ q @ ''us-east-1'' @ q @ ''.'')]],
       calls = [Request ''create_bucket'' [] [(''Bucket'', PyStr ''b1'')]]\<rparr>)"
    by (simp only: t1 [THEN conjunct1] a prod.case sum.case) (simp add: env0_def)
  have e2: "create_s3_bucket s3_boto3 ''b1'' ''eu-west-1'' (env0 empty_world) =
     (Inr PyNone,
      \<lparr>world = set_bucket ''b1'' \<lparr>versioning = Unversioned, entries = [], access_block = None,
                                  policy = None\<rparr> empty_world,
       stdout = [[PyStr (''S3 bucket '' @ q @ ''b1'' @ q
                   @ '' created successfully in region '' @ q @ ''eu-west-1'' @ q @ ''.'')]],
       calls = [Request ''create_bucket'' [] [(''Bucket'', PyStr ''b1'')]]\<rparr>)"
    by (simp only: t2 [THEN conjunct1] a' prod.case sum.case) (simp add: env0_def)
  have e3: "create_s3_bucket offline_boto3 ''b1'' ''us-east-1'' (env0 ()) =
     (Inr PyNone,
      \<lparr>world = (), stdout = [[PyStr ''An error occurred: Could not connect'']],
       calls = [Request ''create_bucket'' [] [(''Bucket'', PyStr ''b1'')]]\<rparr>)"
    by (simp only: t3 [THEN conjunct1] o3 prod.case sum.case) (simp add: env0_def)
  have e4: "stdout (snd (create_s3_bucket offline_boto3 ''b1'' ''us-east-1'' (env0 ())))
     = stdout (snd (create_s3_bucket offline_boto3 ''b1'' ''eu-west-1'' (env0 ())))"
    using t3 [THEN conjunct2] by (simp add: offline_client_def)
  show ?thesis
    by (intro conjI e1 e2 e3 e4)
qed

section \<open>The notebook's functions on the modelled service\<close>

subsection \<open>Requests and their operations\<close>

lemma s3_boto3_client: "s3_boto3 ''s3'' region = Inr (s3_service region)"
  by (simp add: s3_boto3_def)

lemma s3_upload_file:
  "s3_service region (Request ''upload_file'' [PyStr path, PyStr b, PyStr k] []) w
     = upload_file_op path b k w"
  by (simp add: s3_service_def)

lemma s3_download_file:
  "s3_service region (Request ''download_file'' [PyStr b, PyStr k, PyStr path] []) w
     = download_file_op b k path w"
  by (simp add: s3_service_def)

lemma s3_delete_bucket_request:
  "s3_service region (Request ''delete_bucket'' [] [(''Bucket'', PyStr b)]) w
     = delete_bucket_op b w"
  by (simp add: s3_service_def kw_str_def)

lemma s3_delete_object:
  "s3_service region
     (Request ''delete_object'' [] [(''Bucket'', PyStr b), (''Key'', PyStr k), (''VersionId'', PyStr v)]) w
     = delete_object_op b k v w"
  by (simp add: s3_service_def kw_str_def)

lemma s3_list_all_versions:
  "s3_service region (Request ''list_object_versions'' [] [(''Bucket'', PyStr b)]) w
     = list_object_versions_op b [] w"
  by (simp add: s3_service_def kw_str_def)

lemma s3_list_versions:
  "s3_service region
     (Request ''list_object_versions'' [] [(''Bucket'', PyStr b), (''Prefix'', PyStr p)]) w
     = list_object_versions_op b p w"
  by (simp add: s3_service_def kw_str_def)

lemma s3_list_objects:
  "s3_service region
     (Request ''list_objects_v2'' [] [(''Bucket'', PyStr b), (''Prefix'', PyStr p)]) w
     = list_objects_v2_op b p w"
  by (simp add: s3_service_def kw_str_def)

lemma set_bucket_same: "buckets w b = Some bk \<Longrightarrow> set_bucket b bk w = w"
  by (simp add: set_bucket_def fun_upd_idem)

lemma set_bucket_twice: "set_bucket b x (set_bucket b y w) = set_bucket b x w"
  by (simp add: set_bucket_def)

lemma buckets_set_bucket: "buckets (set_bucket b bk w) b = Some bk"
  by (simp add: set_bucket_def)

lemma page_size_set_bucket: "page_size (set_bucket b bk w) = page_size w"
  by (simp add: set_bucket_def)

lemma for_in_list: "for_in (PyList xs) body = for_each xs body"
  by (rule ext) (simp add: for_in_def bind_def lift_def)

subsection \<open>Upload and download\<close>

lemma latest_put_entry:
  "latest (put_entry bk k payload t) k
     = Some \<lparr>e_key = k,
             e_version_id = (if versioning bk = Enabled then version_id_of t else ''null''),
             e_marker = False, e_payload = payload, e_modified = t\<rparr>"
  by (simp add: latest_def put_entry_def)

lemma upload_in_model:
  assumes "files (world s) path = Some payload" and "buckets (world s) b = Some bk"
  shows "upload_file_to_s3 s3_boto3 path b k s =
     (Inr PyNone,
      s\<lparr>world := (set_bucket b (put_entry bk k payload (clock (world s))) (world s))
                   \<lparr>clock := Suc (clock (world s))\<rparr>,
        calls := calls s @ [Request ''upload_file'' [PyStr path, PyStr b, PyStr k] []],
        stdout := stdout s @ [[PyStr (''File '' @ path @ '' uploaded to s3://''
                    @ b @ ''/'' @ k @ '' successfully.'')]]\<rparr>)"
  using assms
  by (simp add: upload_file_to_s3_run [where B=s3_boto3 and c="s3_service None", OF s3_boto3_client]
        s3_upload_file upload_file_op_def)

text \<open>
  Claim C3. On the modelled service, for every existing bucket, every key and every
  readable local file \<open>path'\<close> with contents \<open>payload\<close>: \<^verbatim>\<open>upload_file_to_s3\<close> followed by
  \<^verbatim>\<open>download_object_from_s3\<close> to a writable \<open>path\<close> leaves \<open>payload\<close> at \<open>path\<close>, and only
  the upload's success message is printed.
\<close>

theorem upload_then_download_round_trip:
  assumes "files (world s) path' = Some payload"
      and "buckets (world s) b = Some bk"
      and "path \<notin> unwritable (world s)"
  shows "files (world (snd (download_object_from_s3 s3_boto3 b k path
                        (snd (upload_file_to_s3 s3_boto3 path' b k s))))) path = Some payload
       \<and> stdout (snd (download_object_from_s3 s3_boto3 b k path
                        (snd (upload_file_to_s3 s3_boto3 path' b k s))))
         = stdout s @ [[PyStr (''File '' @ path' @ '' uploaded to s3://''
                    @ b @ ''/'' @ k @ '' successfully.'')]]"
  using assms
  by (simp add: upload_in_model
        download_object_from_s3_run [where B=s3_boto3 and c="s3_service None", OF s3_boto3_client]
        s3_download_file download_file_op_def with_bucket_def set_bucket_def latest_put_entry)

theorem upload_then_download_round_trip_witness:
  "files (world (snd (download_object_from_s3 s3_boto3 BUCKET_NAME object_key_json
            ''./downloads/delivery-stream-one-record.json''
            (snd (upload_file_to_s3 s3_boto3 local_file_path_json BUCKET_NAME object_key_json
                    (env0 demo_world))))))
     ''./downloads/delivery-stream-one-record.json'' = Some ''{}''"
proof -
  have h1: "files (world (env0 demo_world)) local_file_path_json = Some ''{}''"
    by (simp add: env0_def demo_world_def local_file_path_json_def)
  have h2: "buckets (world (env0 demo_world)) BUCKET_NAME = Some demo_bucket"
    by (simp add: env0_def demo_world_def)
  have h3: "''./downloads/delivery-stream-one-record.json'' \<notin> unwritable (world (env0 demo_world))"
    by (simp add: env0_def demo_world_def)
  show ?thesis
    using upload_then_download_round_trip [OF h1 h2 h3, of object_key_json] by simp
qed

text \<open>
  Claim C4. On the modelled service, in a bucket whose versioning is \<open>Enabled\<close>, two uploads
  to the same key leave two retained versions at the head of the bucket's rows: the second
  upload with the latest flag set, the first with the flag cleared, under two different
  version identifiers.
\<close>

theorem two_uploads_two_versions:
  assumes "buckets (world s) b = Some bk" and "versioning bk = Enabled"
      and "files (world s) p1 = Some a" and "files (world s) p2 = Some c"
  shows "\<exists>bk'. buckets (world (snd (upload_file_to_s3 s3_boto3 p2 b k
                   (snd (upload_file_to_s3 s3_boto3 p1 b k s))))) b = Some bk'
          \<and> rows bk' =
              (\<lparr>e_key = k, e_version_id = version_id_of (Suc (clock (world s))),
                e_marker = False, e_payload = c, e_modified = Suc (clock (world s))\<rparr>, True)
            # (\<lparr>e_key = k, e_version_id = version_id_of (clock (world s)),
                e_marker = False, e_payload = a, e_modified = clock (world s)\<rparr>, False)
            # mark_latest [k, k] (entries bk)
          \<and> version_id_of (Suc (clock (world s))) \<noteq> version_id_of (clock (world s))"
  using assms
  by (simp add: upload_in_model set_bucket_def put_entry_def rows_def version_id_of_def)

theorem two_uploads_two_versions_witness:
  "\<exists>bk'. buckets (world (snd (upload_file_to_s3 s3_boto3 ''data/images/v2/AWS-Logo.png''
                   BUCKET_NAME ''images/AWS-Logo.png''
                   (snd (upload_file_to_s3 s3_boto3 ''data/images/v1/AWS-Logo.png''
                           BUCKET_NAME ''images/AWS-Logo.png'' (env0 demo_world))))))
             BUCKET_NAME = Some bk'
      \<and> take 2 (rows bk') =
          [(\<lparr>e_key = ''images/AWS-Logo.png'', e_version_id = version_id_of 6,
             e_marker = False, e_payload = ''logo-v2'', e_modified = 6\<rparr>, True),
           (\<lparr>e_key = ''images/AWS-Logo.png'', e_version_id = version_id_of 5,
             e_marker = False, e_payload = ''logo-v1'', e_modified = 5\<rparr>, False)]"
proof -
  have h1: "buckets (world (env0 demo_world)) BUCKET_NAME = Some demo_bucket"
    by (simp add: env0_def demo_world_def)
  have h2: "versioning demo_bucket = Enabled"
    by (simp add: demo_bucket_def)
  have h3: "files (world (env0 demo_world)) ''data/images/v1/AWS-Logo.png'' = Some ''logo-v1''"
    by (simp add: env0_def demo_world_def)
  have h4: "files (world (env0 demo_world)) ''data/images/v2/AWS-Logo.png'' = Some ''logo-v2''"
    by (simp add: env0_def demo_world_def)
  have c: "clock (world (env0 demo_world)) = 5"
    by (simp add: env0_def demo_world_def)
  show ?thesis
    using two_uploads_two_versions [OF h1 h2 h3 h4, of "''images/AWS-Logo.png''"] c
    by auto
qed

text \<open>
  Claim C8. The cell of exercise 2 uploads \<^verbatim>\<open>data/json/delivery-stream-one-record.json\<close>
  under the key \<^verbatim>\<open>json/json/delivery-stream-one-record.json\<close>, with the segment
  \<^verbatim>\<open>json/\<close> twice: that is the key of the one request the cell sends, and on the modelled
  service the uploaded contents are afterwards the latest version of that key.
\<close>

theorem json_uploaded_under_doubled_key:
  "object_key_json = ''json/'' @ ''json/'' @ ''delivery-stream-one-record.json''
   \<and> (B ''s3'' None = Inr c \<longrightarrow>
      calls (snd (upload_json_cell B s)) =
        calls s @ [Request ''upload_file''
                     [PyStr ''data/json/delivery-stream-one-record.json'',
                      PyStr BUCKET_NAME, PyStr object_key_json] []])
   \<and> (files w local_file_path_json = Some payload \<and> buckets w BUCKET_NAME = Some bk \<longrightarrow>
      (\<exists>bk' e. buckets (world (snd (upload_json_cell s3_boto3 (env0 w)))) BUCKET_NAME = Some bk'
         \<and> latest bk' object_key_json = Some e \<and> e_payload e = payload
         \<and> prefix ''json/json/'' (e_key e)))"
proof (intro conjI impI)
  show "object_key_json = ''json/'' @ ''json/'' @ ''delivery-stream-one-record.json''"
    by (simp add: object_key_json_def)
next
  assume "B ''s3'' None = Inr c"
  then show "calls (snd (upload_json_cell B s)) =
        calls s @ [Request ''upload_file''
                     [PyStr ''data/json/delivery-stream-one-record.json'',
                      PyStr BUCKET_NAME, PyStr object_key_json] []]"
    by (simp add: upload_json_cell_def upload_file_to_s3_run [where B=B and c=c]
          local_file_path_json_def split: prod.splits sum.splits)
next
  assume "files w local_file_path_json = Some payload \<and> buckets w BUCKET_NAME = Some bk"
  then show "\<exists>bk' e. buckets (world (snd (upload_json_cell s3_boto3 (env0 w)))) BUCKET_NAME = Some bk'
         \<and> latest bk' object_key_json = Some e \<and> e_payload e = payload
         \<and> prefix ''json/json/'' (e_key e)"
    by (simp add: upload_json_cell_def upload_in_model env0_def set_bucket_def latest_put_entry)
       (simp add: object_key_json_def)
qed

theorem json_uploaded_under_doubled_key_witness:
  "calls (snd (upload_json_cell s3_boto3 (env0 demo_world))) =
     [Request ''upload_file''
        [PyStr ''data/json/delivery-stream-one-record.json'',
         PyStr BUCKET_NAME, PyStr object_key_json] []]
   \<and> (\<exists>bk' e. buckets (world (snd (upload_json_cell s3_boto3 (env0 demo_world)))) BUCKET_NAME
                 = Some bk'
         \<and> latest bk' object_key_json = Some e \<and> e_payload e = ''{}''
         \<and> prefix ''json/json/'' (e_key e))"
proof -
  have h1: "s3_boto3 ''s3'' None = Inr (s3_service None)"
    by (simp add: s3_boto3_def)
  have h2: "files demo_world local_file_path_json = Some ''{}''
      \<and> buckets demo_world BUCKET_NAME = Some demo_bucket"
    by (simp add: demo_world_def local_file_path_json_def)
  have e: "calls (env0 demo_world) = []"
    by (simp add: env0_def)
  show ?thesis
    using json_uploaded_under_doubled_key [where B=s3_boto3 and c="s3_service None"
        and s="env0 demo_world" and w=demo_world and payload="''{}''" and bk=demo_bucket] h1 h2 e
    by auto
qed

subsection \<open>Deleting a bucket without a purge\<close>

text \<open>
  Claim C7. On the modelled service, \<^verbatim>\<open>s3_delete_bucket\<close> with \<^verbatim>\<open>delete_objects=False\<close> on
  a bucket that still holds a version or a delete marker raises \<^verbatim>\<open>BucketNotEmpty\<close> and
  leaves the world as it was; on a bucket with no entry left it succeeds and the bucket
  is gone.
\<close>

theorem delete_bucket_needs_empty_bucket:
  assumes "buckets (world s) b = Some bk"
  shows "s3_delete_bucket s3_boto3 b False s =
     (if entries bk = [] then
        (Inr ok_response,
         s\<lparr>world := (world s)\<lparr>buckets := (buckets (world s))(b := None)\<rparr>,
           calls := calls s @ [Request ''delete_bucket'' [] [(''Bucket'', PyStr b)]]\<rparr>)
      else
        (Inl (client_error ''BucketNotEmpty''),
         s\<lparr>calls := calls s @ [Request ''delete_bucket'' [] [(''Bucket'', PyStr b)]]\<rparr>))"
  using assms
  by (simp add: s3_delete_bucket_def s3_boto3_client prog_defs s3_delete_bucket_request
        delete_bucket_op_def with_bucket_def)

theorem delete_bucket_needs_empty_bucket_witness:
  "s3_delete_bucket s3_boto3 BUCKET_NAME False (env0 demo_world) =
     (Inl (client_error ''BucketNotEmpty''),
      \<lparr>world = demo_world, stdout = [],
       calls = [Request ''delete_bucket'' [] [(''Bucket'', PyStr BUCKET_NAME)]]\<rparr>)
   \<and> s3_delete_bucket s3_boto3 BUCKET_NAME False (env0 fresh_world) =
     (Inr ok_response,
      \<lparr>world = fresh_world\<lparr>buckets := Map.empty\<rparr>, stdout = [],
       calls = [Request ''delete_bucket'' [] [(''Bucket'', PyStr BUCKET_NAME)]]\<rparr>)"
proof -
  have h1: "buckets (world (env0 demo_world)) BUCKET_NAME = Some demo_bucket"
    by (simp add: env0_def demo_world_def)
  have h2: "buckets (world (env0 fresh_world)) BUCKET_NAME
      = Some \<lparr>versioning = Unversioned, entries = [], access_block = None, policy = None\<rparr>"
    by (simp add: env0_def fresh_world_def)
  have ne: "entries demo_bucket \<noteq> []" by (simp add: demo_bucket_def)
  show ?thesis
    using delete_bucket_needs_empty_bucket [OF h1] delete_bucket_needs_empty_bucket [OF h2] ne
    by (simp add: env0_def fresh_world_def)
qed

subsection \<open>Listing objects\<close>

lemma map_fst_mark_latest: "map fst (mark_latest seen es) = es"
  by (induction es arbitrary: seen) simp_all

lemma length_mark_latest: "length (mark_latest seen es) = length es"
  by (induction es arbitrary: seen) simp_all

lemma mark_latest_True_iff:
  "(e, True) \<in> set (mark_latest seen es)
     \<longleftrightarrow> e_key e \<notin> set seen \<and> find (\<lambda>x. e_key x = e_key e) es = Some e"
proof (induction es arbitrary: seen)
  case Nil
  then show ?case by simp
next
  case (Cons x es)
  show ?case
  proof (cases "e_key x = e_key e")
    case True
    then show ?thesis by (auto simp: Cons.IH)
  next
    case False
    then show ?thesis by (auto simp: Cons.IH)
  qed
qed

lemma latest_keys_distinct:
  "distinct (map (\<lambda>r. e_key (fst r)) (filter (\<lambda>r. snd r \<and> P (fst r)) (mark_latest seen es)))"
proof (induction es arbitrary: seen)
  case Nil
  then show ?case by simp
next
  case (Cons x es)
  have "\<And>e. (e, True) \<in> set (mark_latest (e_key x # seen) es) \<Longrightarrow> e_key e \<noteq> e_key x"
    by (simp add: mark_latest_True_iff)
  then show ?case using Cons.IH [of "e_key x # seen"] by fastforce
qed

lemma sorted_current_keys: "sorted (current_keys bk p)"
  by (simp add: current_keys_def)

lemma distinct_current_keys: "distinct (current_keys bk p)"
  unfolding current_keys_def rows_def
  using latest_keys_distinct [of "\<lambda>e. \<not> e_marker e \<and> prefix p (e_key e)" "[]" "entries bk"]
  by simp

lemma set_current_keys:
  "set (current_keys bk p) = {k. prefix p k \<and> (\<exists>e. latest bk k = Some e \<and> \<not> e_marker e)}"
proof -
  have "\<And>k. k \<in> set (current_keys bk p) \<longleftrightarrow> prefix p k \<and> (\<exists>e. latest bk k = Some e \<and> \<not> e_marker e)"
  proof -
    fix k
    have "k \<in> set (current_keys bk p)
        \<longleftrightarrow> (\<exists>e. (e, True) \<in> set (rows bk) \<and> \<not> e_marker e \<and> prefix p (e_key e) \<and> e_key e = k)"
      by (auto simp: current_keys_def image_iff)
    also have "\<dots> \<longleftrightarrow> (\<exists>e. find (\<lambda>x. e_key x = e_key e) (entries bk) = Some e
                        \<and> \<not> e_marker e \<and> prefix p (e_key e) \<and> e_key e = k)"
      by (simp add: rows_def mark_latest_True_iff)
    also have "\<dots> \<longleftrightarrow> prefix p k \<and> (\<exists>e. latest bk k = Some e \<and> \<not> e_marker e)"
      by (auto simp: latest_def find_Some_iff)
    finally show "k \<in> set (current_keys bk p) \<longleftrightarrow> prefix p k \<and> (\<exists>e. latest bk k = Some e \<and> \<not> e_marker e)" .
  qed
  then show ?thesis by blast
qed

lemma for_each_prints:
  assumes "\<And>x s. body (g x) s = (Inr PyNone, s\<lparr>stdout := stdout s @ out x\<rparr>)"
  shows "for_each (map g xs) body s = (Inr PyNone, s\<lparr>stdout := stdout s @ concat (map out xs)\<rparr>)"
proof (induction xs arbitrary: s)
  case Nil
  then show ?case by (simp add: ret_def)
next
  case (Cons x xs)
  then show ?case by (simp add: bind_def assms)
qed

lemma print_key_summary:
  "print_key (object_summary k) s = (Inr PyNone, s\<lparr>stdout := stdout s @ [[PyStr k]]\<rparr>)"
  by (simp add: print_key_def object_summary_def bind_def lift_def py_print_def)

lemma print_keys_loop:
  "for_each (map object_summary ks) print_key s
     = (Inr PyNone, s\<lparr>stdout := stdout s @ map (\<lambda>k. [PyStr k]) ks\<rparr>)"
  using for_each_prints [of print_key object_summary "\<lambda>k. [[PyStr k]]" ks s, OF print_key_summary]
  by (simp add: concat_map_singleton)

lemma list_objects_in_model:
  assumes "buckets (world s) b = Some bk"
  shows "list_objects_in_folder s3_boto3 b p s =
     (Inr PyNone,
      s\<lparr>calls := calls s @ [Request ''list_objects_v2'' []
                    [(''Bucket'', PyStr b), (''Prefix'', PyStr p)]],
        stdout := stdout s @
          (if take (page_size (world s)) (current_keys bk p) = []
           then [[PyStr (''No objects found in folder '' @ q @ p @ q @ ''.'')]]
           else [PyStr (''Objects with a key that starts with '' @ q @ p @ q @ '':'')]
                # map (\<lambda>k. [PyStr k]) (take (page_size (world s)) (current_keys bk p)))\<rparr>)"
proof (cases "take (page_size (world s)) (current_keys bk p) = []")
  case True
  then show ?thesis
    using assms
    by (simp add: list_objects_in_folder_def s3_boto3_client bind_def lift_def invoke_def
          s3_list_objects list_objects_v2_op_def with_bucket_def py_print_def)
next
  case False
  then show ?thesis
    using assms
    by (simp add: list_objects_in_folder_def s3_boto3_client bind_def lift_def invoke_def
          s3_list_objects list_objects_v2_op_def with_bucket_def py_print_def for_in_list
          print_keys_loop)
qed

text \<open>
  Claim C5, as amended. On the modelled service, for an existing bucket,
  \<^verbatim>\<open>list_objects_in_folder\<close> sends one listing request and prints the first page (at most
  \<open>page_size\<close> keys) of the current object keys that have the prefix as a literal string
  prefix, in lexicographic order and without repetition, under a heading; when that page
  is empty it prints the line "No objects found" instead. It returns \<^verbatim>\<open>None\<close> in both cases.
\<close>

theorem list_objects_prints_first_page:
  assumes "buckets (world s) b = Some bk"
  shows "list_objects_in_folder s3_boto3 b p s =
     (Inr PyNone,
      s\<lparr>calls := calls s @ [Request ''list_objects_v2'' []
                    [(''Bucket'', PyStr b), (''Prefix'', PyStr p)]],
        stdout := stdout s @
          (if take (page_size (world s)) (current_keys bk p) = []
           then [[PyStr (''No objects found in folder '' @ q @ p @ q @ ''.'')]]
           else [PyStr (''Objects with a key that starts with '' @ q @ p @ q @ '':'')]
                # map (\<lambda>k. [PyStr k]) (take (page_size (world s)) (current_keys bk p)))\<rparr>)
   \<and> sorted (current_keys bk p) \<and> distinct (current_keys bk p)
   \<and> set (current_keys bk p)
       = {k. prefix p k \<and> (\<exists>e. latest bk k = Some e \<and> \<not> e_marker e)}"
  by (simp only: list_objects_in_model [OF assms] sorted_current_keys distinct_current_keys
        set_current_keys simp_thms)

theorem list_objects_prints_first_page_witness:
  "list_objects_in_folder s3_boto3 BUCKET_NAME ''images'' (env0 demo_world) =
     (Inr PyNone,
      \<lparr>world = demo_world,
       stdout = [[PyStr (''Objects with a key that starts with '' @ q @ ''images'' @ q @ '':'')],
                 [PyStr ''images/AWS-Logo.png'']],
       calls = [Request ''list_objects_v2'' []
                  [(''Bucket'', PyStr BUCKET_NAME), (''Prefix'', PyStr ''images'')]]\<rparr>)
   \<and> list_objects_in_folder s3_boto3 BUCKET_NAME ''tmp'' (env0 demo_world) =
     (Inr PyNone,
      \<lparr>world = demo_world,
       stdout = [[PyStr (''No objects found in folder '' @ q @ ''tmp'' @ q @ ''.'')]],
       calls = [Request ''list_objects_v2'' []
                  [(''Bucket'', PyStr BUCKET_NAME), (''Prefix'', PyStr ''tmp'')]]\<rparr>)"
proof -
  have h: "buckets (world (env0 demo_world)) BUCKET_NAME = Some demo_bucket"
    by (simp add: env0_def demo_world_def)
  have k1: "current_keys demo_bucket ''images'' = [''images/AWS-Logo.png'']"
    by (simp add: current_keys_def rows_def demo_bucket_def)
  have k2: "current_keys demo_bucket ''tmp'' = []"
    by (simp add: current_keys_def rows_def demo_bucket_def)
  have ps: "page_size (world (env0 demo_world)) = 1000"
    by (simp add: env0_def demo_world_def)
  show ?thesis
    using list_objects_prints_first_page [OF h, of "''images''"]
          list_objects_prints_first_page [OF h, of "''tmp''"]
    by (simp add: k1 k2 ps) (simp add: env0_def)
qed

text \<open>
  A bucket with one key more than a listing returns.
\<close>

lemma object_key_of_inj: "object_key_of i = object_key_of j \<longleftrightarrow> i = j"
proof
  assume "object_key_of i = object_key_of j"
  then have "length (object_key_of i) = length (object_key_of j)" by simp
  then show "i = j" by (simp add: object_key_of_def)
qed simp

lemma object_key_of_mono: "i \<le> j \<Longrightarrow> object_key_of i \<le> object_key_of j"
proof -
  assume "i \<le> j"
  then obtain d where j: "j = i + d" using le_Suc_ex by blast
  show ?thesis
  proof (cases d)
    case 0
    then show ?thesis using j by simp
  next
    case (Suc d')
    have "object_key_of j = object_key_of i @ replicate d (CHR ''0'')"
      by (simp add: object_key_of_def j replicate_add)
    moreover have "\<exists>c z. replicate d (CHR ''0'') = c # z" using Suc by simp
    ultimately have "(object_key_of i, object_key_of j) \<in> lexord {(u, v). u < v}"
      using lexord_append_rightI [of "replicate d (CHR ''0'')" "object_key_of i"] by simp
    then show ?thesis by (simp add: list_le_def list_less_def)
  qed
qed

lemma sorted_object_keys: "sorted (map object_key_of [0..<n])"
  by (simp add: sorted_map sorted_wrt_iff_nth_less object_key_of_mono)

lemma mark_latest_distinct:
  "distinct (map e_key es) \<Longrightarrow> set (map e_key es) \<inter> set seen = {}
     \<Longrightarrow> mark_latest seen es = map (\<lambda>e. (e, True)) es"
  by (induction es arbitrary: seen) auto

lemma prefix_object_key: "prefix ''csv/'' (object_key_of i)"
  by (simp add: object_key_of_def)

lemma many_objects_keys:
  "map e_key (entries many_objects) = map object_key_of [0..<1001]"
  by (simp add: many_objects_def comp_def)

lemma many_objects_rows: "rows many_objects = map (\<lambda>e. (e, True)) (entries many_objects)"
  unfolding rows_def
  by (rule mark_latest_distinct)
     (simp_all add: many_objects_keys distinct_map inj_on_def object_key_of_inj)

lemma many_objects_current: "current_keys many_objects ''csv/'' = map object_key_of [0..<1001]"
proof -
  have "filter (\<lambda>r. snd r \<and> \<not> e_marker (fst r) \<and> prefix ''csv/'' (e_key (fst r)))
          (rows many_objects) = rows many_objects"
    by (simp add: many_objects_rows filter_id_conv) (simp add: many_objects_def prefix_object_key)
  then have "current_keys many_objects ''csv/'' = sort (map e_key (entries many_objects))"
    by (simp add: current_keys_def many_objects_rows comp_def)
  then show ?thesis
    by (simp only: many_objects_keys sorted_sort_id [OF sorted_object_keys])
qed

lemma upt_1001: "[0..<1001] = [0..<1000] @ [1000]"
proof -
  have "[0..<Suc 1000] = [0..<1000] @ [1000]" by (rule upt_Suc_append) simp
  then show ?thesis by simp
qed

text \<open>
  Claim C5 as stated fails: with 1001 current keys under \<^verbatim>\<open>csv/\<close> the function prints the
  heading and the 1000 keys of the one response it reads; the key that sorts last is a
  current key with the prefix and is not printed.
\<close>

theorem listing_stops_after_one_page_counterexample:
  "object_key_of 1000 \<in> set (current_keys many_objects ''csv/'')
   \<and> prefix ''csv/'' (object_key_of 1000)
   \<and> [PyStr (object_key_of 1000)]
       \<notin> set (stdout (snd (list_objects_in_folder s3_boto3 BUCKET_NAME ''csv/'' (env0 crowded_world))))
   \<and> length (stdout (snd (list_objects_in_folder s3_boto3 BUCKET_NAME ''csv/'' (env0 crowded_world))))
       = 1001
   \<and> length (current_keys many_objects ''csv/'') = 1001"
proof -
  have b: "buckets (world (env0 crowded_world)) BUCKET_NAME = Some many_objects"
    by (simp add: env0_def crowded_world_def)
  have ps: "page_size (world (env0 crowded_world)) = 1000"
    by (simp add: env0_def crowded_world_def)
  have tk: "take 1000 (current_keys many_objects ''csv/'') = map object_key_of [0..<1000]"
    by (simp add: many_objects_current upt_1001)
  have ne: "map object_key_of [0..<1000] \<noteq> []" by simp
  have out: "stdout (snd (list_objects_in_folder s3_boto3 BUCKET_NAME ''csv/'' (env0 crowded_world)))
      = [PyStr (''Objects with a key that starts with '' @ q @ ''csv/'' @ q @ '':'')]
        # map (\<lambda>k. [PyStr k]) (map object_key_of [0..<1000])"
    using ne by (simp add: list_objects_in_model [OF b] ps tk) (simp add: env0_def)
  have hd: "object_key_of 1000 \<noteq> ''Objects with a key that starts with '' @ q @ ''csv/'' @ q @ '':''"
    by (simp add: object_key_of_def)
  show ?thesis
    using hd by (auto simp: out many_objects_current prefix_object_key object_key_of_inj)
qed

subsection \<open>Listing versions\<close>

lemma versions_of_response:
  "py_get (PyDict
          ([(''Name'', PyStr b), (''Prefix'', PyStr p),
            (''MaxKeys'', PyInt n),
            (''IsTruncated'', PyBool t)]
           @ (if vs = [] then [] else [(''Versions'', PyList (map version_dict vs))])
           @ (if ms = [] then [] else [(''DeleteMarkers'', PyList (map version_dict ms))])))
       ''Versions'' (PyList []) = Inr (PyList (map version_dict vs))"
  by simp

lemma markers_of_response:
  "py_get (PyDict
          ([(''Name'', PyStr b), (''Prefix'', PyStr p),
            (''MaxKeys'', PyInt n),
            (''IsTruncated'', PyBool t)]
           @ (if vs = [] then [] else [(''Versions'', PyList (map version_dict vs))])
           @ (if ms = [] then [] else [(''DeleteMarkers'', PyList (map version_dict ms))])))
       ''DeleteMarkers'' (PyList []) = Inr (PyList (map version_dict ms))"
  by simp

lemma print_version_row:
  "print_version (version_dict r) s =
     (Inr PyNone,
      s\<lparr>stdout := stdout s @
          [[PyStr ''Object Key:'', PyStr (e_key (fst r))],
           [PyStr ''Object Version Id:'', PyStr (e_version_id (fst r))],
           [PyStr ''Is Latest:'', PyBool (snd r)],
           [PyStr ''Last Modified:'', PyInt (int (e_modified (fst r)))],
           []]\<rparr>)"
  by (simp add: print_version_def version_dict_def bind_def lift_def py_print_def)

lemma print_versions_loop:
  "for_each (map version_dict rs) print_version s
   = (Inr PyNone,
      s\<lparr>stdout := stdout s @ concat (map (\<lambda>r.
          [[PyStr ''Object Key:'', PyStr (e_key (fst r))],
           [PyStr ''Object Version Id:'', PyStr (e_version_id (fst r))],
           [PyStr ''Is Latest:'', PyBool (snd r)],
           [PyStr ''Last Modified:'', PyInt (int (e_modified (fst r)))],
           []]) rs)\<rparr>)"
  by (rule for_each_prints) (rule print_version_row)

lemma list_versions_in_model:
  assumes "buckets (world s) b = Some bk"
  shows "list_object_versions s3_boto3 b p s =
     (Inr PyNone,
      s\<lparr>calls := calls s @ [Request ''list_object_versions'' []
                    [(''Bucket'', PyStr b), (''Prefix'', PyStr p)]],
        stdout := stdout s @ concat (map (\<lambda>r.
          [[PyStr ''Object Key:'', PyStr (e_key (fst r))],
           [PyStr ''Object Version Id:'', PyStr (e_version_id (fst r))],
           [PyStr ''Is Latest:'', PyBool (snd r)],
           [PyStr ''Last Modified:'', PyInt (int (e_modified (fst r)))],
           []]) (page_versions (world s) bk p))\<rparr>)"
proof -
  have lst: "invoke (s3_service None) (Request ''list_object_versions'' []
                    [(''Bucket'', PyStr b), (''Prefix'', PyStr p)]) s
      = (Inr (PyDict
          ([(''Name'', PyStr b), (''Prefix'', PyStr p),
            (''MaxKeys'', PyInt (int (page_size (world s)))),
            (''IsTruncated'', PyBool (page_size (world s) < length (matching_rows bk p)))]
           @ (if page_versions (world s) bk p = [] then []
              else [(''Versions'', PyList (map version_dict (page_versions (world s) bk p)))])
           @ (if page_markers (world s) bk p = [] then []
              else [(''DeleteMarkers'', PyList (map version_dict (page_markers (world s) bk p)))]))),
         s\<lparr>world := world s, calls := calls s @ [Request ''list_object_versions'' []
                    [(''Bucket'', PyStr b), (''Prefix'', PyStr p)]]\<rparr>)"
    using assms by (simp add: invoke_def s3_list_versions list_object_versions_op_def with_bucket_def)
  have "list_object_versions s3_boto3 b p s =
     (Inr PyNone,
      (s\<lparr>world := world s, calls := calls s @ [Request ''list_object_versions'' []
                    [(''Bucket'', PyStr b), (''Prefix'', PyStr p)]]\<rparr>)
        \<lparr>stdout := stdout (s\<lparr>world := world s, calls := calls s @ [Request ''list_object_versions'' []
                    [(''Bucket'', PyStr b), (''Prefix'', PyStr p)]]\<rparr>) @ concat (map (\<lambda>r.
          [[PyStr ''Object Key:'', PyStr (e_key (fst r))],
           [PyStr ''Object Version Id:'', PyStr (e_version_id (fst r))],
           [PyStr ''Is Latest:'', PyBool (snd r)],
           [PyStr ''Last Modified:'', PyInt (int (e_modified (fst r)))],
           []]) (page_versions (world s) bk p))\<rparr>)"
    unfolding list_object_versions_def
    by (simp only: s3_boto3_client bind_def lift_def lst prod.case sum.case
          versions_of_response for_in_list print_versions_loop)
  then show ?thesis by simp
qed

text \<open>
  Claim C6, as amended. On the modelled service, for an existing bucket,
  \<^verbatim>\<open>list_object_versions\<close> prints, for each retained version in the one page of the response
  whose key starts with the prefix, its key, version id, latest flag and modification
  time, then an empty line. It does not read the delete markers of the response, and it
  returns \<^verbatim>\<open>None\<close>.
\<close>

theorem list_versions_prints_versions_only:
  assumes "buckets (world s) b = Some bk"
  shows "list_object_versions s3_boto3 b p s =
     (Inr PyNone,
      s\<lparr>calls := calls s @ [Request ''list_object_versions'' []
                    [(''Bucket'', PyStr b), (''Prefix'', PyStr p)]],
        stdout := stdout s @ concat (map (\<lambda>r.
          [[PyStr ''Object Key:'', PyStr (e_key (fst r))],
           [PyStr ''Object Version Id:'', PyStr (e_version_id (fst r))],
           [PyStr ''Is Latest:'', PyBool (snd r)],
           [PyStr ''Last Modified:'', PyInt (int (e_modified (fst r)))],
           []]) (page_versions (world s) bk p))\<rparr>)"
  by (rule list_versions_in_model [OF assms])

theorem list_versions_prints_versions_only_witness:
  "list_object_versions s3_boto3 BUCKET_NAME ''images/'' (env0 demo_world) =
     (Inr PyNone,
      \<lparr>world = demo_world,
       stdout = [[PyStr ''Object Key:'', PyStr ''images/AWS-Logo.png''],
                 [PyStr ''Object Version Id:'', PyStr ''v11''],
                 [PyStr ''Is Latest:'', PyBool True],
                 [PyStr ''Last Modified:'', PyInt 2],
                 [],
                 [PyStr ''Object Key:'', PyStr ''images/AWS-Logo.png''],
                 [PyStr ''Object Version Id:'', PyStr ''null''],
                 [PyStr ''Is Latest:'', PyBool False],
                 [PyStr ''Last Modified:'', PyInt 1],
                 []],
       calls = [Request ''list_object_versions'' []
                  [(''Bucket'', PyStr BUCKET_NAME), (''Prefix'', PyStr ''images/'')]]\<rparr>)"
proof -
  have h: "buckets (world (env0 demo_world)) BUCKET_NAME = Some demo_bucket"
    by (simp add: env0_def demo_world_def)
  have pv: "page_versions (world (env0 demo_world)) demo_bucket ''images/'' =
     [(\<lparr>e_key = ''images/AWS-Logo.png'', e_version_id = ''v11'', e_marker = False,
          e_payload = ''logo-v2'', e_modified = 2\<rparr>, True),
      (\<lparr>e_key = ''images/AWS-Logo.png'', e_version_id = ''null'', e_marker = False,
          e_payload = ''logo-v1'', e_modified = 1\<rparr>, False)]"
    by (simp add: page_versions_def matching_rows_def rows_def demo_bucket_def demo_world_def env0_def)
  show ?thesis
    using list_versions_prints_versions_only [OF h, of "''images/''"]
    by (simp add: pv) (simp add: env0_def)
qed

text \<open>
  Claim C6 as stated fails: for the prefix \<^verbatim>\<open>tmp/\<close> the response holds one delete marker
  and one retained version; the function prints the version only and returns \<^verbatim>\<open>None\<close>.
\<close>

theorem delete_markers_not_listed_counterexample:
  "page_markers demo_world demo_bucket ''tmp/'' =
     [(\<lparr>e_key = ''tmp/old.txt'', e_version_id = ''v1111'', e_marker = True,
        e_payload = [], e_modified = 4\<rparr>, True)]
   \<and> list_object_versions s3_boto3 BUCKET_NAME ''tmp/'' (env0 demo_world) =
     (Inr PyNone,
      \<lparr>world = demo_world,
       stdout = [[PyStr ''Object Key:'', PyStr ''tmp/old.txt''],
                 [PyStr ''Object Version Id:'', PyStr ''v111''],
                 [PyStr ''Is Latest:'', PyBool False],
                 [PyStr ''Last Modified:'', PyInt 3],
                 []],
       calls = [Request ''list_object_versions'' []
                  [(''Bucket'', PyStr BUCKET_NAME), (''Prefix'', PyStr ''tmp/'')]]\<rparr>)"
proof -
  have b: "buckets (world (env0 demo_world)) BUCKET_NAME = Some demo_bucket"
    by (simp add: env0_def demo_world_def)
  have rws: "matching_rows demo_bucket ''tmp/'' =
     [(\<lparr>e_key = ''tmp/old.txt'', e_version_id = ''v1111'', e_marker = True,
        e_payload = [], e_modified = 4\<rparr>, True),
      (\<lparr>e_key = ''tmp/old.txt'', e_version_id = ''v111'', e_marker = False,
          e_payload = ''old'', e_modified = 3\<rparr>, False)]"
    by (simp add: matching_rows_def rows_def demo_bucket_def)
  have pm: "page_markers demo_world demo_bucket ''tmp/'' =
     [(\<lparr>e_key = ''tmp/old.txt'', e_version_id = ''v1111'', e_marker = True,
        e_payload = [], e_modified = 4\<rparr>, True)]"
    by (simp add: page_markers_def rws demo_world_def)
  have pv: "page_versions (world (env0 demo_world)) demo_bucket ''tmp/'' =
     [(\<lparr>e_key = ''tmp/old.txt'', e_version_id = ''v111'', e_marker = False,
          e_payload = ''old'', e_modified = 3\<rparr>, False)]"
    by (simp add: page_versions_def rws demo_world_def env0_def)
  show ?thesis
    by (simp add: pm list_versions_in_model [OF b] pv) (simp add: env0_def)
qed

subsection \<open>The purge of \<^verbatim>\<open>s3_delete_bucket\<close>\<close>

lemma delete_version_in_model:
  assumes "buckets (world s) b = Some bk"
  shows "delete_version (s3_service region) b (version_dict r) s =
     (Inr ok_response,
      s\<lparr>world := set_bucket b
                   (bk\<lparr>entries := filter (\<lambda>e. entry_id e \<noteq> entry_id (fst r)) (entries bk)\<rparr>)
                   (world s),
        calls := calls s @
          [Request ''delete_object'' []
             [(''Bucket'', PyStr b), (''Key'', PyStr (e_key (fst r))),
              (''VersionId'', PyStr (e_version_id (fst r)))]]\<rparr>)"
  using assms
  by (simp add: delete_version_def version_dict_def bind_def lift_def invoke_def
        s3_delete_object delete_object_op_def with_bucket_def entry_id_def)

lemma delete_loop_in_model:
  assumes "buckets (world s) b = Some bk"
  shows "for_each (map version_dict rs) (delete_version (s3_service region) b) s =
     (Inr PyNone,
      s\<lparr>world := set_bucket b
                   (bk\<lparr>entries :=
                        filter (\<lambda>e. entry_id e \<notin> set (map (\<lambda>r. entry_id (fst r)) rs))
                          (entries bk)\<rparr>)
                   (world s),
        calls := calls s @
          map (\<lambda>r. Request ''delete_object'' []
             [(''Bucket'', PyStr b), (''Key'', PyStr (e_key (fst r))),
              (''VersionId'', PyStr (e_version_id (fst r)))]) rs\<rparr>)"
  using assms
proof (induction rs arbitrary: s bk)
  case Nil
  then show ?case by (simp add: ret_def set_bucket_same)
next
  case (Cons r rs)
  let ?bk1 = "bk\<lparr>entries := filter (\<lambda>e. entry_id e \<noteq> entry_id (fst r)) (entries bk)\<rparr>"
  let ?s1 = "s\<lparr>world := set_bucket b ?bk1 (world s),
        calls := calls s @
          [Request ''delete_object'' []
             [(''Bucket'', PyStr b), (''Key'', PyStr (e_key (fst r))),
              (''VersionId'', PyStr (e_version_id (fst r)))]]\<rparr>"
  have b1: "buckets (world ?s1) b = Some ?bk1"
    by (simp add: buckets_set_bucket)
  have f: "filter (\<lambda>e. entry_id e \<notin> set (map (\<lambda>r. entry_id (fst r)) rs))
             (filter (\<lambda>e. entry_id e \<noteq> entry_id (fst r)) (entries bk))
         = filter (\<lambda>e. entry_id e \<notin> set (map (\<lambda>r. entry_id (fst r)) (r # rs))) (entries bk)"
    by (auto intro: filter_cong)
  show ?case
    using f by (simp add: bind_def delete_version_in_model [OF Cons.prems] Cons.IH [OF b1] set_bucket_twice)
qed

lemma page_ids:
  "set (map (\<lambda>r. entry_id (fst r)) (page_versions w bk p))
     \<union> set (map (\<lambda>r. entry_id (fst r)) (page_markers w bk p))
   = set (map (\<lambda>r. entry_id (fst r)) (take (page_size w) (matching_rows bk p)))"
  by (auto simp: page_versions_def page_markers_def)

lemma purge_in_model:
  assumes "buckets (world s) b = Some bk"
  shows "s3_delete_bucket s3_boto3 b True s =
     (if filter (\<lambda>e. entry_id e \<notin> set (map (\<lambda>r. entry_id (fst r))
                    (take (page_size (world s)) (matching_rows bk [])))) (entries bk) = []
      then Inr ok_response else Inl (client_error ''BucketNotEmpty''),
      s\<lparr>world :=
          (if filter (\<lambda>e. entry_id e \<notin> set (map (\<lambda>r. entry_id (fst r))
                    (take (page_size (world s)) (matching_rows bk [])))) (entries bk) = []
           then (world s)\<lparr>buckets := (buckets (world s))(b := None)\<rparr>
           else set_bucket b
                  (bk\<lparr>entries := filter (\<lambda>e. entry_id e \<notin> set (map (\<lambda>r. entry_id (fst r))
                    (take (page_size (world s)) (matching_rows bk [])))) (entries bk)\<rparr>)
                  (world s)),
        calls := calls s
          @ [Request ''list_object_versions'' [] [(''Bucket'', PyStr b)]]
          @ map (\<lambda>r. Request ''delete_object'' []
               [(''Bucket'', PyStr b), (''Key'', PyStr (e_key (fst r))),
                (''VersionId'', PyStr (e_version_id (fst r)))])
              (page_versions (world s) bk [] @ page_markers (world s) bk [])
          @ [Request ''delete_bucket'' [] [(''Bucket'', PyStr b)]]\<rparr>)"
proof -
  let ?w = "world s"
  let ?vs = "page_versions ?w bk []"
  let ?ms = "page_markers ?w bk []"
  let ?del = "\<lambda>r. Request ''delete_object'' []
               [(''Bucket'', PyStr b), (''Key'', PyStr (e_key (fst r))),
                (''VersionId'', PyStr (e_version_id (fst r)))]"
  let ?s0 = "s\<lparr>world := ?w, calls := calls s @ [Request ''list_object_versions'' [] [(''Bucket'', PyStr b)]]\<rparr>"
  let ?bk1 = "bk\<lparr>entries := filter (\<lambda>e. entry_id e \<notin> set (map (\<lambda>r. entry_id (fst r)) ?vs)) (entries bk)\<rparr>"
  let ?s1 = "?s0\<lparr>world := set_bucket b ?bk1 (world ?s0), calls := calls ?s0 @ map ?del ?vs\<rparr>"
  let ?bk2 = "?bk1\<lparr>entries := filter (\<lambda>e. entry_id e \<notin> set (map (\<lambda>r. entry_id (fst r)) ?ms)) (entries ?bk1)\<rparr>"
  let ?s2 = "?s1\<lparr>world := set_bucket b ?bk2 (world ?s1), calls := calls ?s1 @ map ?del ?ms\<rparr>"
  have b0: "buckets (world ?s0) b = Some bk" using assms by simp
  have l1: "for_each (map version_dict ?vs) (delete_version (s3_service None) b) ?s0 = (Inr PyNone, ?s1)"
    by (rule delete_loop_in_model [OF b0])
  have b1: "buckets (world ?s1) b = Some ?bk1" by (simp add: buckets_set_bucket)
  have l2: "for_each (map version_dict ?ms) (delete_version (s3_service None) b) ?s1 = (Inr PyNone, ?s2)"
    by (rule delete_loop_in_model [OF b1])
  have e2: "entries ?bk2 = filter (\<lambda>e. entry_id e \<notin> set (map (\<lambda>r. entry_id (fst r))
                    (take (page_size ?w) (matching_rows bk [])))) (entries bk)"
    by (simp only: page_ids [of ?w bk "[]", symmetric]) simp
  have lst: "invoke (s3_service None) (Request ''list_object_versions'' [] [(''Bucket'', PyStr b)]) s
      = (fst (list_object_versions_op b [] ?w), ?s0)"
    using assms by (simp add: invoke_def s3_list_all_versions list_object_versions_op_def with_bucket_def)
  have resp: "fst (list_object_versions_op b [] ?w) = Inr (PyDict
          ([(''Name'', PyStr b), (''Prefix'', PyStr []),
            (''MaxKeys'', PyInt (int (page_size ?w))),
            (''IsTruncated'', PyBool (page_size ?w < length (matching_rows bk [])))]
           @ (if ?vs = [] then [] else [(''Versions'', PyList (map version_dict ?vs))])
           @ (if ?ms = [] then [] else [(''DeleteMarkers'', PyList (map version_dict ?ms))])))"
    using assms by (simp add: list_object_versions_op_def with_bucket_def)
  have b2: "buckets (world ?s2) b = Some ?bk2" by (simp add: buckets_set_bucket)
  have w2: "world ?s2 = set_bucket b ?bk2 ?w" by (simp add: set_bucket_twice)
  have v: "lift (py_get (PyDict
          ([(''Name'', PyStr b), (''Prefix'', PyStr []),
            (''MaxKeys'', PyInt (int (page_size ?w))),
            (''IsTruncated'', PyBool (page_size ?w < length (matching_rows bk [])))]
           @ (if ?vs = [] then [] else [(''Versions'', PyList (map version_dict ?vs))])
           @ (if ?ms = [] then [] else [(''DeleteMarkers'', PyList (map version_dict ?ms))])))
            ''Versions'' (PyList [])) ?s0 = (Inr (PyList (map version_dict ?vs)), ?s0)"
    by (simp only: lift_def versions_of_response)
  have m: "lift (py_get (PyDict
          ([(''Name'', PyStr b), (''Prefix'', PyStr []),
            (''MaxKeys'', PyInt (int (page_size ?w))),
            (''IsTruncated'', PyBool (page_size ?w < length (matching_rows bk [])))]
           @ (if ?vs = [] then [] else [(''Versions'', PyList (map version_dict ?vs))])
           @ (if ?ms = [] then [] else [(''DeleteMarkers'', PyList (map version_dict ?ms))])))
            ''DeleteMarkers'' (PyList [])) ?s1 = (Inr (PyList (map version_dict ?ms)), ?s1)"
    by (simp only: lift_def markers_of_response)
  have loop1: "for_in (PyList (map version_dict ?vs)) (delete_version (s3_service None) b) ?s0
      = (Inr PyNone, ?s1)"
    by (simp only: for_in_list l1)
  have loop2: "for_in (PyList (map version_dict ?ms)) (delete_version (s3_service None) b) ?s1
      = (Inr PyNone, ?s2)"
    by (simp only: for_in_list l2)
  have lst': "invoke (s3_service None) (Request ''list_object_versions'' [] [(''Bucket'', PyStr b)]) s
      = (Inr (PyDict
          ([(''Name'', PyStr b), (''Prefix'', PyStr []),
            (''MaxKeys'', PyInt (int (page_size ?w))),
            (''IsTruncated'', PyBool (page_size ?w < length (matching_rows bk [])))]
           @ (if ?vs = [] then [] else [(''Versions'', PyList (map version_dict ?vs))])
           @ (if ?ms = [] then [] else [(''DeleteMarkers'', PyList (map version_dict ?ms))]))), ?s0)"
    by (simp only: lst resp)
  have cl: "\<And>f. bind (lift (s3_boto3 ''s3'' None)) f s = f (s3_service None) s"
    by (simp add: bind_def lift_def s3_boto3_client)
  have run: "s3_delete_bucket s3_boto3 b True s =
      bind (invoke (s3_service None) (Request ''delete_bucket'' [] [(''Bucket'', PyStr b)])) ret ?s2"
    unfolding s3_delete_bucket_def
    by (simp only: s3_boto3_client if_True bind_def lst' prod.case sum.case lift_def
          versions_of_response markers_of_response for_in_list l1 l2)
  show ?thesis
    unfolding run
    using b2 e2
    by (simp add: bind_def ret_def invoke_def s3_delete_bucket_request delete_bucket_op_def
          with_bucket_def set_bucket_twice buckets_set_bucket set_bucket_def)
qed

lemma remaining_nonempty:
  assumes "distinct (map entry_id es)" and "n < length es"
  shows "filter (\<lambda>e. entry_id e \<notin> set (map f (take n rs))) es \<noteq> []"
proof
  assume "filter (\<lambda>e. entry_id e \<notin> set (map f (take n rs))) es = []"
  then have sub: "set (map entry_id es) \<subseteq> set (map f (take n rs))"
    by (auto simp: filter_empty_conv)
  have "length es = card (set (map entry_id es))"
    using distinct_card [OF assms(1)] by simp
  also have "\<dots> \<le> card (set (map f (take n rs)))"
    by (rule card_mono [OF _ sub]) simp
  also have "\<dots> \<le> length (map f (take n rs))"
    by (rule card_length)
  also have "\<dots> \<le> n" by simp
  finally show False using assms(2) by simp
qed

lemma length_matching_rows_all: "length (matching_rows bk []) = length (entries bk)"
  by (simp add: matching_rows_def rows_def length_mark_latest)

lemma purge_truncated:
  assumes "buckets (world s) b = Some bk"
      and "distinct (map entry_id (entries bk))"
      and "page_size (world s) < length (entries bk)"
  shows "s3_delete_bucket s3_boto3 b True s =
     (Inl (client_error ''BucketNotEmpty''),
      s\<lparr>world := set_bucket b
                  (bk\<lparr>entries := filter (\<lambda>e. entry_id e \<notin> set (map (\<lambda>r. entry_id (fst r))
                    (take (page_size (world s)) (matching_rows bk [])))) (entries bk)\<rparr>)
                  (world s),
        calls := calls s
          @ [Request ''list_object_versions'' [] [(''Bucket'', PyStr b)]]
          @ map (\<lambda>r. Request ''delete_object'' []
               [(''Bucket'', PyStr b), (''Key'', PyStr (e_key (fst r))),
                (''VersionId'', PyStr (e_version_id (fst r)))])
              (page_versions (world s) bk [] @ page_markers (world s) bk [])
          @ [Request ''delete_bucket'' [] [(''Bucket'', PyStr b)]]\<rparr>)"
  using remaining_nonempty [OF assms(2) assms(3), of "\<lambda>r. entry_id (fst r)" "matching_rows bk []"]
  by (simp only: purge_in_model [OF assms(1)] if_False)

text \<open>
  Claim C9. On the modelled service, \<^verbatim>\<open>s3_delete_bucket\<close> with \<^verbatim>\<open>delete_objects=True\<close>
  sends one listing request, one delete request for each (key, version id) pair of that
  one response and no other, and then the request to delete the bucket. When the bucket
  holds more versions and delete markers than one listing returns, the entries outside the
  page are still there at that moment: the service refuses with \<^verbatim>\<open>BucketNotEmpty\<close> and
  the exception reaches the caller.
\<close>

theorem purge_reads_one_page:
  assumes "buckets (world s) b = Some bk"
  shows "calls (snd (s3_delete_bucket s3_boto3 b True s)) =
           calls s
           @ [Request ''list_object_versions'' [] [(''Bucket'', PyStr b)]]
           @ map (\<lambda>r. Request ''delete_object'' []
                [(''Bucket'', PyStr b), (''Key'', PyStr (e_key (fst r))),
                 (''VersionId'', PyStr (e_version_id (fst r)))])
               (page_versions (world s) bk [] @ page_markers (world s) bk [])
           @ [Request ''delete_bucket'' [] [(''Bucket'', PyStr b)]]
       \<and> (distinct (map entry_id (entries bk)) \<and> page_size (world s) < length (entries bk) \<longrightarrow>
            fst (s3_delete_bucket s3_boto3 b True s) = Inl (client_error ''BucketNotEmpty'')
          \<and> length (page_versions (world s) bk [] @ page_markers (world s) bk [])
              = page_size (world s)
          \<and> (\<exists>bk'. buckets (world (snd (s3_delete_bucket s3_boto3 b True s))) b = Some bk'
               \<and> entries bk' \<noteq> []
               \<and> entries bk' =
                   filter (\<lambda>e. entry_id e \<notin> set (map (\<lambda>r. entry_id (fst r))
                       (take (page_size (world s)) (matching_rows bk [])))) (entries bk)))"
proof (rule conjI)
  show "calls (snd (s3_delete_bucket s3_boto3 b True s)) =
           calls s
           @ [Request ''list_object_versions'' [] [(''Bucket'', PyStr b)]]
           @ map (\<lambda>r. Request ''delete_object'' []
                [(''Bucket'', PyStr b), (''Key'', PyStr (e_key (fst r))),
                 (''VersionId'', PyStr (e_version_id (fst r)))])
               (page_versions (world s) bk [] @ page_markers (world s) bk [])
           @ [Request ''delete_bucket'' [] [(''Bucket'', PyStr b)]]"
    by (simp add: purge_in_model [OF assms])
next
  show "distinct (map entry_id (entries bk)) \<and> page_size (world s) < length (entries bk) \<longrightarrow>
            fst (s3_delete_bucket s3_boto3 b True s) = Inl (client_error ''BucketNotEmpty'')
          \<and> length (page_versions (world s) bk [] @ page_markers (world s) bk [])
              = page_size (world s)
          \<and> (\<exists>bk'. buckets (world (snd (s3_delete_bucket s3_boto3 b True s))) b = Some bk'
               \<and> entries bk' \<noteq> []
               \<and> entries bk' =
                   filter (\<lambda>e. entry_id e \<notin> set (map (\<lambda>r. entry_id (fst r))
                       (take (page_size (world s)) (matching_rows bk [])))) (entries bk))"
  proof
    assume h: "distinct (map entry_id (entries bk)) \<and> page_size (world s) < length (entries bk)"
    then have d: "distinct (map entry_id (entries bk))"
      and l: "page_size (world s) < length (entries bk)"
      by simp_all
    have len: "length (page_versions (world s) bk [] @ page_markers (world s) bk [])
        = page_size (world s)"
    proof -
      have "length (page_versions (world s) bk [] @ page_markers (world s) bk [])
          = length (take (page_size (world s)) (matching_rows bk []))"
        unfolding page_versions_def page_markers_def
        using sum_length_filter_compl [of "\<lambda>r. \<not> e_marker (fst r)"
                "take (page_size (world s)) (matching_rows bk [])"]
        by simp
      then show ?thesis using l by (simp add: length_matching_rows_all)
    qed
    have ne: "filter (\<lambda>e. entry_id e \<notin> set (map (\<lambda>r. entry_id (fst r))
                  (take (page_size (world s)) (matching_rows bk [])))) (entries bk) \<noteq> []"
      by (rule remaining_nonempty [OF d l])
    show "fst (s3_delete_bucket s3_boto3 b True s) = Inl (client_error ''BucketNotEmpty'')
            \<and> length (page_versions (world s) bk [] @ page_markers (world s) bk [])
                = page_size (world s)
            \<and> (\<exists>bk'. buckets (world (snd (s3_delete_bucket s3_boto3 b True s))) b = Some bk'
                 \<and> entries bk' \<noteq> []
                 \<and> entries bk' =
                     filter (\<lambda>e. entry_id e \<notin> set (map (\<lambda>r. entry_id (fst r))
                         (take (page_size (world s)) (matching_rows bk [])))) (entries bk))"
      using ne len by (simp add: purge_truncated [OF assms d l] buckets_set_bucket)
  qed
qed

theorem purge_reads_one_page_witness:
  "fst (s3_delete_bucket s3_boto3 BUCKET_NAME True (env0 crowded_world))
     = Inl (client_error ''BucketNotEmpty'')
   \<and> length (calls (snd (s3_delete_bucket s3_boto3 BUCKET_NAME True (env0 crowded_world)))) = 1002
   \<and> length (page_versions crowded_world many_objects []
             @ page_markers crowded_world many_objects []) = 1000"
proof -
  have b: "buckets (world (env0 crowded_world)) BUCKET_NAME = Some many_objects"
    by (simp add: env0_def crowded_world_def)
  have d: "distinct (map entry_id (entries many_objects))"
  proof -
    have "map entry_id (entries many_objects) = map (\<lambda>i. (object_key_of i, ''null'')) [0..<1001]"
      by (simp add: many_objects_def entry_id_def comp_def)
    then show ?thesis by (simp add: distinct_map inj_on_def object_key_of_inj)
  qed
  have l: "page_size (world (env0 crowded_world)) < length (entries many_objects)"
    by (simp add: env0_def crowded_world_def many_objects_def)
  have w: "world (env0 crowded_world) = crowded_world" "calls (env0 crowded_world) = []"
    by (simp_all add: env0_def)
  have ps: "page_size crowded_world = 1000"
    by (simp add: crowded_world_def)
  show ?thesis
    using purge_reads_one_page [OF b] d l
    by (simp add: w ps)
qed

text \<open>
  Claim C2, where the code departs from it: on a bucket of 1001 objects the purge deletes
  the 1000 entries of the one page it lists (the listing request, 1000 delete requests and
  the request to delete the bucket make 1002 requests), an entry is left, and the deletion
  of the bucket fails with \<^verbatim>\<open>BucketNotEmpty\<close>.
\<close>

theorem purge_leaves_bucket_behind:
  "fst (s3_delete_bucket s3_boto3 BUCKET_NAME True (env0 crowded_world))
     = Inl (client_error ''BucketNotEmpty'')
   \<and> (\<exists>bk'. buckets (world (snd (s3_delete_bucket s3_boto3 BUCKET_NAME True (env0 crowded_world))))
               BUCKET_NAME = Some bk' \<and> entries bk' \<noteq> [])
   \<and> length (entries many_objects) = 1001
   \<and> length (calls (snd (s3_delete_bucket s3_boto3 BUCKET_NAME True (env0 crowded_world)))) = 1002"
proof -
  have b: "buckets (world (env0 crowded_world)) BUCKET_NAME = Some many_objects"
    by (simp add: env0_def crowded_world_def)
  have d: "distinct (map entry_id (entries many_objects))"
  proof -
    have "map entry_id (entries many_objects) = map (\<lambda>i. (object_key_of i, ''null'')) [0..<1001]"
      by (simp add: many_objects_def entry_id_def comp_def)
    then show ?thesis by (simp add: distinct_map inj_on_def object_key_of_inj)
  qed
  have l: "page_size (world (env0 crowded_world)) < length (entries many_objects)"
    by (simp add: env0_def crowded_world_def many_objects_def)
  have len: "length (page_versions (world (env0 crowded_world)) many_objects []
                 @ page_markers (world (env0 crowded_world)) many_objects []) = 1000"
  proof -
    have "length (page_versions (world (env0 crowded_world)) many_objects []
                 @ page_markers (world (env0 crowded_world)) many_objects [])
        = length (take 1000 (matching_rows many_objects []))"
      unfolding page_versions_def page_markers_def
      using sum_length_filter_compl [of "\<lambda>r. \<not> e_marker (fst r)" "take 1000 (matching_rows many_objects [])"]
      by (simp add: env0_def crowded_world_def)
    then show ?thesis by (simp add: length_matching_rows_all many_objects_def)
  qed
  have ne: "filter (\<lambda>e. entry_id e \<notin> set (map (\<lambda>r. entry_id (fst r))
                    (take (page_size (world (env0 crowded_world))) (matching_rows many_objects []))))
              (entries many_objects) \<noteq> []"
    by (rule remaining_nonempty [OF d l])
  show ?thesis
    using ne len
    by (simp add: purge_truncated [OF b d l] buckets_set_bucket)
       (simp add: env0_def many_objects_def)
qed

text \<open>
  When the bucket holds no more entries than a listing returns, the purge deletes every
  entry and the bucket deletion succeeds.
\<close>

lemma set_matching_rows_all: "set (map fst (matching_rows bk [])) = set (entries bk)"
proof -
  have "set (map fst (matching_rows bk [])) = set (map fst (rows bk))"
    by (simp add: matching_rows_def)
  then show ?thesis by (simp only: rows_def map_fst_mark_latest)
qed

lemma purge_complete:
  assumes "buckets (world s) b = Some bk"
      and "length (entries bk) \<le> page_size (world s)"
  shows "s3_delete_bucket s3_boto3 b True s =
     (Inr ok_response,
      s\<lparr>world := (world s)\<lparr>buckets := (buckets (world s))(b := None)\<rparr>,
        calls := calls s
          @ [Request ''list_object_versions'' [] [(''Bucket'', PyStr b)]]
          @ map (\<lambda>r. Request ''delete_object'' []
               [(''Bucket'', PyStr b), (''Key'', PyStr (e_key (fst r))),
                (''VersionId'', PyStr (e_version_id (fst r)))])
              (page_versions (world s) bk [] @ page_markers (world s) bk [])
          @ [Request ''delete_bucket'' [] [(''Bucket'', PyStr b)]]\<rparr>)"
proof -
  have tk: "take (page_size (world s)) (matching_rows bk []) = matching_rows bk []"
    using assms(2) by (simp add: length_matching_rows_all)
  have "set (map (\<lambda>r. entry_id (fst r)) (matching_rows bk [])) = entry_id ` set (entries bk)"
    using set_matching_rows_all [of bk] by (simp add: image_image [symmetric])
  then have "filter (\<lambda>e. entry_id e \<notin> set (map (\<lambda>r. entry_id (fst r))
                    (take (page_size (world s)) (matching_rows bk [])))) (entries bk) = []"
    by (simp only: tk) (simp add: filter_empty_conv)
  then show ?thesis
    by (simp add: purge_in_model [OF assms(1)])
qed

section \<open>The service keeps its state well formed\<close>

lemma version_id_of_inj: "version_id_of i = version_id_of j \<longleftrightarrow> i = j"
proof
  assume "version_id_of i = version_id_of j"
  then have "length (version_id_of i) = length (version_id_of j)" by simp
  then show "i = j" by (simp add: version_id_of_def)
qed simp

lemma wf_bucket_mono: "wf_bucket t bk \<Longrightarrow> wf_bucket (Suc t) bk"
  by (auto simp: wf_bucket_def list_all_iff)

lemma wf_bucket_filter: "wf_bucket t bk \<Longrightarrow> wf_bucket t (bk\<lparr>entries := filter P (entries bk)\<rparr>)"
  by (auto simp: wf_bucket_def list_all_iff distinct_map_filter)

lemma wf_bucket_put_entry:
  assumes "wf_bucket t bk"
  shows "wf_bucket (Suc t) (put_entry bk k payload t)"
proof (cases "versioning bk = Enabled")
  case True
  have "(k, version_id_of t) \<notin> set (map entry_id (entries bk))"
  proof
    assume "(k, version_id_of t) \<in> set (map entry_id (entries bk))"
    then obtain e where e: "e \<in> set (entries bk)" "e_version_id e = version_id_of t"
      by (auto simp: entry_id_def)
    have "e_version_id e = ''null'' \<or> e_version_id e \<in> set (map version_id_of [0..<t])"
      using assms e(1) by (simp add: wf_bucket_def list_all_iff)
    then have "version_id_of t = ''null'' \<or> version_id_of t \<in> set (map version_id_of [0..<t])"
      by (simp only: e(2))
    moreover have "version_id_of t \<noteq> ''null''"
      by (simp add: version_id_of_def)
    moreover have "version_id_of t \<notin> set (map version_id_of [0..<t])"
      by (auto simp: version_id_of_inj)
    ultimately show False by simp
  qed
  then show ?thesis
    using assms True by (auto simp: wf_bucket_def put_entry_def list_all_iff entry_id_def)
next
  case False
  then show ?thesis
    using assms
    by (auto simp: wf_bucket_def put_entry_def list_all_iff entry_id_def distinct_map_filter)
qed

lemma wf_world_set_bucket:
  "wf_world w \<Longrightarrow> wf_bucket (clock w) bk \<Longrightarrow> wf_world (set_bucket b bk w)"
  by (simp add: wf_world_def set_bucket_def)

lemma wf_world_ops:
  assumes "wf_world w"
  shows "wf_world (snd (create_bucket_op region b w))"
    and "wf_world (snd (upload_file_op path b k w))"
    and "wf_world (snd (download_file_op b k path w))"
    and "wf_world (snd (put_public_access_block_op b cfg w))"
    and "wf_world (snd (put_bucket_policy_op b pol w))"
    and "wf_world (snd (put_bucket_versioning_op b cfg w))"
    and "wf_world (snd (list_objects_v2_op b p w))"
    and "wf_world (snd (list_object_versions_op b p w))"
    and "wf_world (snd (delete_object_op b k v w))"
    and "wf_world (snd (delete_bucket_op b w))"
proof -
  show "wf_world (snd (create_bucket_op region b w))"
    using assms by (auto simp: create_bucket_op_def wf_world_def set_bucket_def wf_bucket_def
        split: option.splits)
  show "wf_world (snd (upload_file_op path b k w))"
    using assms wf_bucket_put_entry wf_bucket_mono
    by (auto simp: upload_file_op_def wf_world_def set_bucket_def split: option.splits)
  show "wf_world (snd (download_file_op b k path w))"
    using assms by (auto simp: download_file_op_def with_bucket_def wf_world_def
        split: option.splits)
  show "wf_world (snd (put_public_access_block_op b cfg w))"
    using assms by (auto simp: put_public_access_block_op_def with_bucket_def wf_world_def
        set_bucket_def wf_bucket_def split: option.splits)
  show "wf_world (snd (put_bucket_policy_op b pol w))"
    using assms by (auto simp: put_bucket_policy_op_def with_bucket_def wf_world_def
        set_bucket_def wf_bucket_def split: option.splits)
  show "wf_world (snd (put_bucket_versioning_op b cfg w))"
    using assms by (auto simp: put_bucket_versioning_op_def with_bucket_def wf_world_def
        set_bucket_def wf_bucket_def split: option.splits)
  show "wf_world (snd (list_objects_v2_op b p w))"
    using assms by (auto simp: list_objects_v2_op_def with_bucket_def Let_def split: option.splits)
  show "wf_world (snd (list_object_versions_op b p w))"
    using assms by (auto simp: list_object_versions_op_def with_bucket_def split: option.splits)
  show "wf_world (snd (delete_object_op b k v w))"
    using assms wf_bucket_filter
    by (auto simp: delete_object_op_def with_bucket_def wf_world_def set_bucket_def
        split: option.splits)
  show "wf_world (snd (delete_bucket_op b w))"
    using assms by (auto simp: delete_bucket_op_def with_bucket_def wf_world_def
        split: option.splits)
qed

lemma wf_world_bad_request: "wf_world w \<Longrightarrow> wf_world (snd (bad_request w))"
  by (simp add: bad_request_def)

lemma case_three_strings:
  assumes "\<And>a b c. P (f a b c)" and "P d"
  shows "P (case xs of [Some a, Some b, Some c] \<Rightarrow> f a b c | _ \<Rightarrow> d)"
  using assms by (simp split: list.splits option.splits)

lemma case_string_and_value:
  assumes "\<And>a b. P (f a b)" and "P d"
  shows "P (case (x, y) of (Some a, Some b) \<Rightarrow> f a b | _ \<Rightarrow> d)"
  using assms by (simp split: option.splits)

lemma case_string_and_prefix:
  assumes "\<And>a. P (f a)" and "\<And>a b. P (g a b)" and "P d"
  shows "P (case (x, y) of (Some a, None) \<Rightarrow> f a | (Some a, Some (PyStr b)) \<Rightarrow> g a b | _ \<Rightarrow> d)"
  using assms by (simp split: option.splits pyval.splits)

lemma case_three_options:
  assumes "\<And>a b c. P (f a b c)" and "P d"
  shows "P (case (x, y, z) of (Some a, Some b, Some c) \<Rightarrow> f a b c | _ \<Rightarrow> d)"
  using assms by (simp split: option.splits)

lemma case_one_string:
  assumes "\<And>a. P (f a)" and "P d"
  shows "P (case x of Some a \<Rightarrow> f a | None \<Rightarrow> d)"
  using assms by (simp split: option.splits)

lemma wf_world_s3_service:
  assumes "wf_world w"
  shows "wf_world (snd (s3_service region r w))"
  unfolding s3_service_def
  apply (intro if_split [where P="\<lambda>x. wf_world (snd x)", THEN iffD2] conjI impI)
  apply (rule case_one_string [where P="\<lambda>x. wf_world (snd x)"];
         simp add: wf_world_ops [OF assms] wf_world_bad_request [OF assms] assms)
  apply (rule case_three_strings [where P="\<lambda>x. wf_world (snd x)"];
         simp add: wf_world_ops [OF assms] wf_world_bad_request [OF assms] assms)
  apply (rule case_three_strings [where P="\<lambda>x. wf_world (snd x)"];
         simp add: wf_world_ops [OF assms] wf_world_bad_request [OF assms] assms)
  apply (rule case_string_and_value [where P="\<lambda>x. wf_world (snd x)"];
         simp add: wf_world_ops [OF assms] wf_world_bad_request [OF assms] assms)
  apply (rule case_string_and_value [where P="\<lambda>x. wf_world (snd x)"];
         simp add: wf_world_ops [OF assms] wf_world_bad_request [OF assms] assms)
  apply (rule case_string_and_value [where P="\<lambda>x. wf_world (snd x)"];
         simp add: wf_world_ops [OF assms] wf_world_bad_request [OF assms] assms)
  apply (rule case_string_and_prefix [where P="\<lambda>x. wf_world (snd x)"];
         simp add: wf_world_ops [OF assms] wf_world_bad_request [OF assms] assms)
  apply (rule case_string_and_prefix [where P="\<lambda>x. wf_world (snd x)"];
         simp add: wf_world_ops [OF assms] wf_world_bad_request [OF assms] assms)
  apply (rule case_three_options [where P="\<lambda>x. wf_world (snd x)"];
         simp add: wf_world_ops [OF assms] wf_world_bad_request [OF assms] assms)
  apply (rule case_one_string [where P="\<lambda>x. wf_world (snd x)"];
         simp add: wf_world_ops [OF assms] wf_world_bad_request [OF assms] assms)
  apply (simp add: assms)
  done

lemma wf_empty_world: "wf_world empty_world"
  by (simp add: wf_world_def empty_world_def)

lemma wf_world_distinct:
  "wf_world w \<Longrightarrow> buckets w b = Some bk \<Longrightarrow> distinct (map entry_id (entries bk))"
  by (simp add: wf_world_def wf_bucket_def)

text \<open>
  The example states are well formed.
\<close>

lemma wf_fresh_world: "wf_world fresh_world"
  by (simp add: wf_world_def fresh_world_def wf_bucket_def)

lemma wf_demo_world: "wf_world demo_world"
proof -
  have v: "version_id_of 4 = ''v1111''" "version_id_of 3 = ''v111''" "version_id_of 2 = ''v11''"
    by (simp_all add: version_id_of_def eval_nat_numeral)
  have "version_id_of 4 \<in> set (map version_id_of [0..<5])"
       "version_id_of 3 \<in> set (map version_id_of [0..<5])"
       "version_id_of 2 \<in> set (map version_id_of [0..<5])"
    by simp_all
  then have m: "''v1111'' \<in> set (map version_id_of [0..<5])"
       "''v111'' \<in> set (map version_id_of [0..<5])"
       "''v11'' \<in> set (map version_id_of [0..<5])"
    by (simp_all only: v)
  have "distinct (map entry_id (entries demo_bucket))"
    by (simp add: demo_bucket_def entry_id_def)
  moreover have "list_all (\<lambda>e. e_version_id e = ''null''
                     \<or> e_version_id e \<in> set (map version_id_of [0..<5])) (entries demo_bucket)"
    using m by (simp add: demo_bucket_def del: set_map set_upt)
  ultimately have "wf_bucket 5 demo_bucket" by (simp only: wf_bucket_def simp_thms)
  then show ?thesis by (simp add: wf_world_def demo_world_def)
qed

lemma wf_crowded_world: "wf_world crowded_world"
proof -
  have "map entry_id (entries many_objects) = map (\<lambda>i. (object_key_of i, ''null'')) [0..<1001]"
    by (simp add: many_objects_def entry_id_def comp_def)
  then have "distinct (map entry_id (entries many_objects))"
    by (simp add: distinct_map inj_on_def object_key_of_inj)
  moreover have "list_all (\<lambda>e. e_version_id e = ''null'' \<or> e_version_id e \<in> set (map version_id_of [0..<1001]))
          (entries many_objects)"
    by (simp add: many_objects_def list_all_iff)
  ultimately have "wf_bucket 1001 many_objects" by (simp add: wf_bucket_def)
  then show ?thesis by (simp add: wf_world_def crowded_world_def)
qed

end
